theory Spec2Isabelle
  imports Main "HOL-Library.Word"
begin

section \<open>Go strings\<close>

text \<open>
  A Go string is a sequence of bytes, so it is modelled as \<open>string\<close> (a list of 8-bit
  characters). \<open>strings.TrimSpace\<close> removes leading and trailing Unicode white space; on
  the bytes of a string that is: it removes, as long as there is one, a leading (then a
  trailing) UTF-8 encoding of a code point with \<open>unicode.IsSpace\<close>. The encodings are
  listed in \<open>white_space\<close>: the six ASCII ones, U+0085, U+00A0, U+1680, U+2000..U+200A,
  U+2028, U+2029, U+202F, U+205F and U+3000.
\<close>

definition white_space :: "string list" where
  "white_space =
     [[CHR 0x09], [CHR 0x0A], [CHR 0x0B], [CHR 0x0C], [CHR 0x0D], [CHR 0x20],
      [CHR 0xC2, CHR 0x85], [CHR 0xC2, CHR 0xA0], [CHR 0xE1, CHR 0x9A, CHR 0x80],
      [CHR 0xE2, CHR 0x80, CHR 0x80], [CHR 0xE2, CHR 0x80, CHR 0x81],
      [CHR 0xE2, CHR 0x80, CHR 0x82], [CHR 0xE2, CHR 0x80, CHR 0x83],
      [CHR 0xE2, CHR 0x80, CHR 0x84], [CHR 0xE2, CHR 0x80, CHR 0x85],
      [CHR 0xE2, CHR 0x80, CHR 0x86], [CHR 0xE2, CHR 0x80, CHR 0x87],
      [CHR 0xE2, CHR 0x80, CHR 0x88], [CHR 0xE2, CHR 0x80, CHR 0x89],
      [CHR 0xE2, CHR 0x80, CHR 0x8A], [CHR 0xE2, CHR 0x80, CHR 0xA8],
      [CHR 0xE2, CHR 0x80, CHR 0xA9], [CHR 0xE2, CHR 0x80, CHR 0xAF],
      [CHR 0xE2, CHR 0x81, CHR 0x9F], [CHR 0xE3, CHR 0x80, CHR 0x80]]"

fun HasPrefix :: "string \<Rightarrow> string \<Rightarrow> bool" where
  "HasPrefix s [] = True"
| "HasPrefix [] (p # ps) = False"
| "HasPrefix (c # s) (p # ps) = (c = p \<and> HasPrefix s ps)"

fun space_width :: "string list \<Rightarrow> string \<Rightarrow> nat" where
  "space_width [] s = 0"
| "space_width (e # es) s = (if HasPrefix s e then length e else space_width es s)"

fun strip :: "string list \<Rightarrow> string \<Rightarrow> string" where
  "strip encs [] = []"
| "strip encs (c # s) =
     (let n = space_width encs (c # s)
      in if n = 0 then c # s else strip encs (drop (n - 1) s))"

definition TrimLeft :: "string \<Rightarrow> string" where
  "TrimLeft s = strip white_space s"

definition TrimRight :: "string \<Rightarrow> string" where
  "TrimRight s = rev (strip (map rev white_space) (rev s))"

definition TrimSpace :: "string \<Rightarrow> string" where
  "TrimSpace s = TrimRight (TrimLeft s)"

text \<open>
  \<open>[]rune(s)\<close> decodes a string into code points with \<open>utf8.DecodeRuneInString\<close>, and
  \<open>string(rs)\<close> encodes code points with \<open>utf8.AppendRune\<close>. Bytes and code points are
  \<open>nat\<close> here. \<open>lead\<close> is the table \<open>first\<close> of package \<open>utf8\<close> for the lead bytes of
  multi-byte encodings: the size of the encoding and the range accepted for the second
  byte. A byte that starts no valid encoding decodes as \<open>RuneError\<close> (U+FFFD) of width 1;
  a code point that is no Unicode scalar value is encoded as U+FFFD.
\<close>

definition RuneError :: nat where
  "RuneError = 0xFFFD"

definition lead :: "nat \<Rightarrow> (nat \<times> nat \<times> nat) option" where
  "lead b =
     (if 0xC2 \<le> b \<and> b \<le> 0xDF then Some (2, 0x80, 0xBF)
      else if b = 0xE0 then Some (3, 0xA0, 0xBF)
      else if 0xE1 \<le> b \<and> b \<le> 0xEC then Some (3, 0x80, 0xBF)
      else if b = 0xED then Some (3, 0x80, 0x9F)
      else if b = 0xEE \<or> b = 0xEF then Some (3, 0x80, 0xBF)
      else if b = 0xF0 then Some (4, 0x90, 0xBF)
      else if 0xF1 \<le> b \<and> b \<le> 0xF3 then Some (4, 0x80, 0xBF)
      else if b = 0xF4 then Some (4, 0x80, 0x8F)
      else None)"

fun DecodeRune :: "nat list \<Rightarrow> nat \<times> nat" where
  "DecodeRune [] = (RuneError, 0)"
| "DecodeRune (s0 # rest) =
     (if s0 < 0x80 then (s0, 1)
      else (case lead s0 of
              None \<Rightarrow> (RuneError, 1)
            | Some (sz, lo, hi) \<Rightarrow>
                if Suc (length rest) < sz then (RuneError, 1)
                else (let s1 = rest ! 0
                      in if s1 < lo \<or> hi < s1 then (RuneError, 1)
                         else if sz \<le> 2 then ((s0 mod 32) * 64 + s1 mod 64, 2)
                         else (let s2 = rest ! 1
                               in if s2 < 0x80 \<or> 0xBF < s2 then (RuneError, 1)
                                  else if sz \<le> 3
                                  then ((s0 mod 16) * 4096 + (s1 mod 64) * 64 + s2 mod 64, 3)
                                  else (let s3 = rest ! 2
                                        in if s3 < 0x80 \<or> 0xBF < s3 then (RuneError, 1)
                                           else ((s0 mod 8) * 262144 + (s1 mod 64) * 4096
                                                 + (s2 mod 64) * 64 + s3 mod 64, 4))))))"

fun decode_runes :: "nat list \<Rightarrow> nat list" where
  "decode_runes [] = []"
| "decode_runes (b # bs) =
     (case DecodeRune (b # bs) of (r, w) \<Rightarrow> r # decode_runes (drop (w - 1) bs))"

definition EncodeRune :: "nat \<Rightarrow> nat list" where
  "EncodeRune r =
     (if r \<le> 0x7F then [r]
      else if r \<le> 0x7FF then [0xC0 + r div 64, 0x80 + r mod 64]
      else if 0x10FFFF < r \<or> (0xD800 \<le> r \<and> r \<le> 0xDFFF) then [0xEF, 0xBF, 0xBD]
      else if r \<le> 0xFFFF
      then [0xE0 + r div 4096, 0x80 + (r div 64) mod 64, 0x80 + r mod 64]
      else [0xF0 + r div 262144, 0x80 + (r div 4096) mod 64, 0x80 + (r div 64) mod 64,
            0x80 + r mod 64])"

definition to_runes :: "string \<Rightarrow> nat list" where
  "to_runes s = decode_runes (map of_char s)"

definition of_runes :: "nat list \<Rightarrow> string" where
  "of_runes rs = map char_of (concat (map EncodeRune rs))"

section \<open>The job queue (internal/queue/stream.go)\<close>

text \<open>
  \<open>int64\<close> identifiers (chat, user and message ids) are never computed with, so they are
  \<open>int\<close>. \<open>Attempts\<close> is a Go \<open>int\<close>; the only arithmetic on it is the increment behind
  the guard \<open>Attempts < maxJobRetries\<close>, which cannot overflow, so it is \<open>int\<close> as well.
  \<open>EnqueuedAt\<close> is a \<open>time.Time\<close>, here the nanoseconds since Go's zero time, so
  \<open>IsZero\<close> is \<open>= 0\<close>.
\<close>

record AskJob =
  JobID :: string
  ChatID :: int
  ChatType :: string
  UserID :: int
  MessageID :: int
  Prompt :: string
  PresetName :: string
  EnqueuedAt :: int
  Attempts :: int

record Message =
  ID :: nat
  Job :: AskJob

text \<open>
  The Redis stream with its one consumer group. Entry ids are assigned by the engine and
  strictly increase; they are \<open>nat\<close> here. \<open>entries\<close> are the entries that are in the
  stream (added and not deleted), \<open>last_delivered\<close> is the group's last-delivered id
  (what a read with \<open>>\<close> compares with) and \<open>pel\<close> the group's pending entries list.
  The payload of an entry is the JSON of the job; only \<open>Enqueue\<close> writes to the stream,
  so every payload decodes, and an entry is stored as its job.
\<close>

record redis_stream =
  entries :: "(nat \<times> AskJob) list"
  last_id :: nat
  last_delivered :: nat
  pel :: "nat list"

text \<open>
  What the queue's code cannot decide itself: whether each Redis command succeeds, the
  random job id of \<open>newJobID\<close> and the clock of \<open>time.Now\<close>.
\<close>

record qenv =
  new_job_id :: string
  time_now :: int
  xadd_up :: bool
  xread_up :: bool
  xack_up :: bool
  xdel_up :: bool

datatype queue_error = ErrEnqueue | ErrXReadGroup | ErrXAck | ErrXDel

definition Enqueue :: "qenv \<Rightarrow> AskJob \<Rightarrow> redis_stream \<Rightarrow> (queue_error + nat) \<times> redis_stream" where
  "Enqueue e job q =
     (let job1 = (if TrimSpace (JobID job) = [] then job\<lparr>JobID := new_job_id e\<rparr> else job);
          job2 = (if EnqueuedAt job1 = 0 then job1\<lparr>EnqueuedAt := time_now e\<rparr> else job1)
      in if xadd_up e
         then (let i = Suc (last_id q)
               in (Inr i, q\<lparr>entries := entries q @ [(i, job2)], last_id := i\<rparr>))
         else (Inl ErrEnqueue, q))"

definition Read :: "qenv \<Rightarrow> nat \<Rightarrow> redis_stream \<Rightarrow> (queue_error + Message list) \<times> redis_stream" where
  "Read e count q =
     (if \<not> xread_up e then (Inl ErrXReadGroup, q)
      else (let new = take count (filter (\<lambda>(i, j). last_delivered q < i) (entries q))
            in if new = [] then (Inr [], q)
               else (Inr (map (\<lambda>(i, j). \<lparr>ID = i, Job = j\<rparr>) new),
                     q\<lparr>last_delivered := fst (last new), pel := pel q @ map fst new\<rparr>)))"

definition Ack :: "qenv \<Rightarrow> nat \<Rightarrow> redis_stream \<Rightarrow> queue_error option \<times> redis_stream" where
  "Ack e messageID q =
     (if \<not> xack_up e then (Some ErrXAck, q)
      else (let q1 = q\<lparr>pel := removeAll messageID (pel q)\<rparr>
            in if \<not> xdel_up e then (Some ErrXDel, q1)
               else (None, q1\<lparr>entries := filter (\<lambda>(i, j). i \<noteq> messageID) (entries q1)\<rparr>)))"

section \<open>The configuration store (internal/storage)\<close>

text \<open>
  The tables \<open>chats\<close>, \<open>provider_instances\<close> and \<open>presets\<close>. A table with a primary
  key is a map from the key; \<open>provider_instances\<close> has a surrogate id and a unique
  \<open>(chat_id, name)\<close>, and is the list of its rows. \<open>created_at\<close> is left out: no
  operation modelled here reads it. A nullable column is an \<open>option\<close>.
\<close>

record Chat =
  chat_type :: string
  chat_title :: string
  default_preset_name :: "string option"

record ProviderInstance =
  prov_ID :: int
  prov_ChatID :: int
  prov_Name :: string
  prov_Kind :: string
  prov_BaseURL :: string
  prov_EncAPIKey :: "string option"
  prov_EncHeadersJSON :: "string option"
  prov_ConfigJSON :: string

record Preset =
  pre_ChatID :: int
  pre_Name :: string
  pre_ProviderInstanceID :: int
  pre_Model :: string
  pre_SystemPrompt :: string
  pre_ParamsJSON :: string

record AuditEntry =
  aud_ChatID :: int
  aud_UserID :: int
  aud_Action :: string
  aud_MetaJSON :: string

record Store =
  chats :: "int \<rightharpoonup> Chat"
  provider_instances :: "ProviderInstance list"
  presets :: "(int \<times> string) \<rightharpoonup> Preset"
  audit_log :: "AuditEntry list"

text \<open>
  \<open>ErrNotFound\<close> is the store's own error; \<open>ErrDB\<close> stands for every error of the
  database driver (the wrapped errors of \<open>ExecContext\<close> and \<open>QueryRowContext\<close>). Whether
  the driver fails is not decided by the code: each operation takes a flag \<open>up\<close>, and
  returns \<open>ErrDB\<close> and leaves the tables as they are when it is false.
\<close>

datatype store_error = ErrNotFound | ErrDB

definition EnsureChat :: "bool \<Rightarrow> int \<Rightarrow> string \<Rightarrow> string \<Rightarrow> Store \<Rightarrow> store_error option \<times> Store" where
  "EnsureChat up chatID chatType title s =
     (let chatType1 = (if chatType = [] then ''unknown'' else chatType)
      in if \<not> up then (Some ErrDB, s)
         else (None, s\<lparr>chats := (chats s)(chatID \<mapsto>
                 (case chats s chatID of
                    None \<Rightarrow> \<lparr>chat_type = chatType1, chat_title = title, default_preset_name = None\<rparr>
                  | Some c \<Rightarrow> c\<lparr>chat_type := chatType1, chat_title := title\<rparr>))\<rparr>))"

definition GetProviderByName :: "bool \<Rightarrow> int \<Rightarrow> string \<Rightarrow> Store \<Rightarrow> store_error + ProviderInstance" where
  "GetProviderByName up chatID name s =
     (if \<not> up then Inl ErrDB
      else (case filter (\<lambda>p. prov_ChatID p = chatID \<and> prov_Name p = name) (provider_instances s) of
              [] \<Rightarrow> Inl ErrNotFound
            | p # _ \<Rightarrow> Inr p))"

definition UpsertPreset :: "bool \<Rightarrow> Preset \<Rightarrow> Store \<Rightarrow> store_error option \<times> Store" where
  "UpsertPreset up p s =
     (let p1 = (if pre_ParamsJSON p = [] then p\<lparr>pre_ParamsJSON := ''{}''\<rparr> else p)
      in if \<not> up then (Some ErrDB, s)
         else (None, s\<lparr>presets := (presets s)((pre_ChatID p1, pre_Name p1) \<mapsto> p1)\<rparr>))"

definition DeletePreset :: "bool \<Rightarrow> int \<Rightarrow> string \<Rightarrow> Store \<Rightarrow> store_error option \<times> Store" where
  "DeletePreset up chatID name s =
     (if \<not> up then (Some ErrDB, s)
      else (case presets s (chatID, name) of
              None \<Rightarrow> (Some ErrNotFound, s)
            | Some _ \<Rightarrow> (None, s\<lparr>presets := (presets s)((chatID, name) := None)\<rparr>)))"

definition SetDefaultPreset :: "bool \<Rightarrow> int \<Rightarrow> string \<Rightarrow> Store \<Rightarrow> store_error option \<times> Store" where
  "SetDefaultPreset up chatID name s =
     (if \<not> up then (Some ErrDB, s)
      else (case chats s chatID of
              None \<Rightarrow> (Some ErrNotFound, s)
            | Some c \<Rightarrow> (None, s\<lparr>chats := (chats s)(chatID \<mapsto> c\<lparr>default_preset_name := Some name\<rparr>)\<rparr>)))"

definition ClearDefaultPreset :: "bool \<Rightarrow> int \<Rightarrow> Store \<Rightarrow> store_error option \<times> Store" where
  "ClearDefaultPreset up chatID s =
     (if \<not> up then (Some ErrDB, s)
      else (case chats s chatID of
              None \<Rightarrow> (None, s)
            | Some c \<Rightarrow> (None, s\<lparr>chats := (chats s)(chatID \<mapsto> c\<lparr>default_preset_name := None\<rparr>)\<rparr>)))"

definition GetDefaultPresetName :: "bool \<Rightarrow> int \<Rightarrow> Store \<Rightarrow> store_error + string" where
  "GetDefaultPresetName up chatID s =
     (if \<not> up then Inl ErrDB
      else (case chats s chatID of
              None \<Rightarrow> Inl ErrNotFound
            | Some c \<Rightarrow>
                (case default_preset_name c of
                   None \<Rightarrow> Inl ErrNotFound
                 | Some name \<Rightarrow> if TrimSpace name = [] then Inl ErrNotFound else Inr name)))"

text \<open>
  \<open>getPresetWithProvider\<close> joins \<open>presets\<close> with \<open>provider_instances\<close> on the
  provider's id; no row is \<open>ErrNotFound\<close>.
\<close>

definition GetPresetWithProviderByName :: "bool \<Rightarrow> int \<Rightarrow> string \<Rightarrow> Store \<Rightarrow> store_error + (Preset \<times> ProviderInstance)" where
  "GetPresetWithProviderByName up chatID name s =
     (if \<not> up then Inl ErrDB
      else (case presets s (chatID, name) of
              None \<Rightarrow> Inl ErrNotFound
            | Some p \<Rightarrow>
                (case filter (\<lambda>pr. prov_ID pr = pre_ProviderInstanceID p) (provider_instances s) of
                   [] \<Rightarrow> Inl ErrNotFound
                 | pr # _ \<Rightarrow> Inr (p, pr))))"

definition GetDefaultPresetWithProvider :: "bool \<Rightarrow> int \<Rightarrow> Store \<Rightarrow> store_error + (Preset \<times> ProviderInstance)" where
  "GetDefaultPresetWithProvider up chatID s =
     (if \<not> up then Inl ErrDB
      else (case chats s chatID of
              None \<Rightarrow> Inl ErrNotFound
            | Some c \<Rightarrow>
                (case default_preset_name c of
                   None \<Rightarrow> Inl ErrNotFound
                 | Some name \<Rightarrow>
                     if TrimSpace name = [] then Inl ErrNotFound
                     else GetPresetWithProviderByName up chatID name s)))"

text \<open>
  \<open>LogAction\<close> replaces a \<open>meta_json\<close> that is blank or not valid JSON by \<open>{}\<close>;
  \<open>json.Valid\<close> is the parameter \<open>json_valid\<close>.
\<close>

definition LogAction :: "bool \<Rightarrow> (string \<Rightarrow> bool) \<Rightarrow> AuditEntry \<Rightarrow> Store \<Rightarrow> store_error option \<times> Store" where
  "LogAction up json_valid e s =
     (let e1 = (if TrimSpace (aud_MetaJSON e) = [] then e\<lparr>aud_MetaJSON := ''{}''\<rparr> else e);
          e2 = (if \<not> json_valid (aud_MetaJSON e1) then e1\<lparr>aud_MetaJSON := ''{}''\<rparr> else e1)
      in if \<not> up then (Some ErrDB, s)
         else (None, s\<lparr>audit_log := audit_log s @ [e2]\<rparr>))"

section \<open>Provider adapters (internal/providers)\<close>

text \<open>
  \<open>Temperature\<close> (a \<open>float64\<close>) is left out of the request: it only goes into the
  request body, and the body is not modelled.
\<close>

record ChatRequest =
  req_Model :: string
  req_SystemPrompt :: string
  req_UserPrompt :: string
  req_MaxTokens :: int
  req_AllowTools :: bool

text \<open>
  What one HTTP exchange can end in: \<open>HTTPClient.Do\<close> fails (a transport error, a timeout
  or a cancelled context); there is a response with a status code, and \<open>io.ReadAll\<close> fails
  on its body; or there is a response with a status code and a body.
\<close>

datatype http_outcome = TransportError | BodyReadError int | Response int string

datatype chat_error =
    ErrPayload | ErrURLEmpty | ErrBuildRequest | ErrRequestFailed | ErrReadBody
  | ErrTemporaryStatus int | ErrStatus int | ErrParseBody | ErrContext

text \<open>
  The environment of a \<open>Chat\<close> call. \<open>payload_ok\<close>: \<open>buildPayload\<close> (\<open>renderBody\<close>)
  returns no error; \<open>request_ok\<close>: \<open>http.NewRequestWithContext\<close> returns no error;
  \<open>http_result k\<close>: the outcome of the HTTP exchange of attempt \<open>k\<close>; the three
  parsers of response bodies (\<open>None\<close> is their error); \<open>ctx_done k\<close>: the context is
  done before the timer of the sleep after attempt \<open>k\<close> fires, the \<open>select\<close> takes
  \<open>ctx.Done()\<close>.
\<close>

record penv =
  payload_ok :: bool
  request_ok :: bool
  http_result :: "nat \<Rightarrow> http_outcome"
  parseChatCompletions :: "string \<Rightarrow> string option"
  parseResponsesAPI :: "string \<Rightarrow> string option"
  extractText :: "string \<Rightarrow> string option"
  ctx_done :: "nat \<Rightarrow> bool"

text \<open>
  The effects a reader of the system can observe, in the order they happen: HTTP
  requests sent by an adapter (with the attempt number), completed sleeps (nanoseconds),
  and the worker's queue operations, Telegram messages and counter increments.
\<close>

datatype event =
    HttpDo nat
  | Sleep int
  | EvEnqueue AskJob bool
  | EvAck nat bool
  | EvSend int string "int option" bool
  | EvProcessed
  | EvFailed

text \<open>
  \<open>time.Duration\<close> is an \<open>int64\<close> of nanoseconds; \<open>BackoffBase * (1 << attempt)\<close> is
  computed in \<open>int64\<close> and wraps around.
\<close>

definition int64 :: "int \<Rightarrow> int" where
  "int64 x = (x + 2 ^ 63) mod 2 ^ 64 - 2 ^ 63"

definition backoff :: "int \<Rightarrow> nat \<Rightarrow> int" where
  "backoff base attempt = int64 (base * int64 (2 ^ attempt))"

text \<open>
  The retry loop of \<open>Chat\<close>, which the two adapters write in the same words; \<open>callOnce\<close>
  is the adapter's own. \<open>maxRetries\<close> and \<open>attempt\<close> are Go \<open>int\<close>s; \<open>attempt\<close> starts
  at 0 and is incremented only while it differs from \<open>maxRetries\<close>, so it is a \<open>nat\<close>
  that never overflows. A \<open>Chat\<close> returns \<open>(ChatResponse, error)\<close>: \<open>Inr text\<close> is a nil
  error.
\<close>

function chat_loop ::
  "(nat \<Rightarrow> (string \<times> bool \<times> chat_error option) \<times> event list) \<Rightarrow> (nat \<Rightarrow> bool) \<Rightarrow> int \<Rightarrow> int
     \<Rightarrow> nat \<Rightarrow> chat_error option \<Rightarrow> (chat_error + string) \<times> event list" where
  "chat_loop callOnce done maxRetries base attempt lastErr =
     (if int attempt \<le> maxRetries then
        (case callOnce attempt of
           ((text, retry, None), evs) \<Rightarrow> (Inr text, evs)
         | ((text, retry, Some err), evs) \<Rightarrow>
             if \<not> retry \<or> int attempt = maxRetries then (Inl err, evs)
             else if done attempt then (Inl ErrContext, evs)
             else (case chat_loop callOnce done maxRetries base (Suc attempt) (Some err) of
                     (r, evs') \<Rightarrow> (r, evs @ Sleep (backoff base attempt) # evs')))
      else ((case lastErr of None \<Rightarrow> Inr [] | Some err \<Rightarrow> Inl err), []))"
  by pat_completeness auto
termination
  by (relation "measure (\<lambda>(callOnce, done, maxRetries, base, attempt, lastErr).
        nat (maxRetries + 1 - int attempt))") auto

declare chat_loop.simps [simp del]

subsection \<open>openai\_compat\<close>

record oc_Config =
  oc_BaseURL :: string
  oc_APIKey :: string
  oc_Endpoint :: string
  oc_MaxRetries :: int
  oc_BackoffBase :: int

definition oc_New :: "oc_Config \<Rightarrow> oc_Config" where
  "oc_New cfg =
     (let cfg1 = (if oc_Endpoint cfg = [] then cfg\<lparr>oc_Endpoint := ''chat_completions''\<rparr> else cfg);
          cfg2 = (if oc_BackoffBase cfg1 \<le> 0 then cfg1\<lparr>oc_BackoffBase := 400000000\<rparr> else cfg1)
      in if oc_MaxRetries cfg2 < 0 then cfg2\<lparr>oc_MaxRetries := 0\<rparr> else cfg2)"

definition lower_char :: "char \<Rightarrow> char" where
  "lower_char c = (let n = (of_char c :: nat) in if 65 \<le> n \<and> n \<le> 90 then char_of (n + 32) else c)"

text \<open>
  \<open>strings.ToLower\<close> on the ASCII letters; a string with other upper-case letters
  does not become one of the two literals compared with below.
\<close>

definition isResponsesEndpoint :: "string \<Rightarrow> bool" where
  "isResponsesEndpoint v =
     (let v1 = map lower_char (TrimSpace v) in v1 = ''responses'' \<or> v1 = ''/v1/responses'')"

text \<open>
  \<open>buildPayload\<close> fails only where \<open>buildEndpointURL\<close> does: on a blank base URL, or
  when \<open>url.Parse\<close> rejects a base URL that does not already end in an endpoint path.
\<close>

definition HasSuffix :: "string \<Rightarrow> string \<Rightarrow> bool" where
  "HasSuffix s suffix = HasPrefix (rev s) (rev suffix)"

definition oc_buildPayload :: "oc_Config \<Rightarrow> penv \<Rightarrow> ChatRequest \<Rightarrow> chat_error option" where
  "oc_buildPayload cfg e req =
     (let base = TrimSpace (oc_BaseURL cfg)
      in if base = [] then Some ErrURLEmpty
         else if HasSuffix base ''/chat/completions'' \<or> HasSuffix base ''/responses'' then None
         else if \<not> payload_ok e then Some ErrPayload
         else None)"

definition oc_callOnce :: "oc_Config \<Rightarrow> penv \<Rightarrow> nat \<Rightarrow> (string \<times> bool \<times> chat_error option) \<times> event list" where
  "oc_callOnce cfg e attempt =
     (if \<not> request_ok e then (([], False, Some ErrBuildRequest), [])
      else (case http_result e attempt of
              TransportError \<Rightarrow> (([], True, Some ErrRequestFailed), [HttpDo attempt])
            | BodyReadError status \<Rightarrow> (([], False, Some ErrReadBody), [HttpDo attempt])
            | Response status body \<Rightarrow>
                if status \<ge> 500 \<or> status = 429
                then (([], True, Some (ErrTemporaryStatus status)), [HttpDo attempt])
                else if status < 200 \<or> status > 299
                then (([], False, Some (ErrStatus status)), [HttpDo attempt])
                else if isResponsesEndpoint (oc_Endpoint cfg)
                then (case parseResponsesAPI e body of
                        None \<Rightarrow> (([], False, Some ErrParseBody), [HttpDo attempt])
                      | Some text \<Rightarrow> ((text, False, None), [HttpDo attempt]))
                else (case parseChatCompletions e body of
                        None \<Rightarrow> (([], False, Some ErrParseBody), [HttpDo attempt])
                      | Some text \<Rightarrow> ((text, False, None), [HttpDo attempt]))))"

definition oc_Chat :: "oc_Config \<Rightarrow> penv \<Rightarrow> ChatRequest \<Rightarrow> (chat_error + string) \<times> event list" where
  "oc_Chat cfg e req =
     (case oc_buildPayload cfg e req of
        Some err \<Rightarrow> (Inl err, [])
      | None \<Rightarrow> chat_loop (oc_callOnce cfg e) (ctx_done e) (oc_MaxRetries cfg) (oc_BackoffBase cfg) 0 None)"

subsection \<open>custom\_http\<close>

record ch_Config =
  ch_URL :: string
  ch_APIKey :: string
  ch_BodyTemplate :: string
  ch_Method :: string
  ch_MaxRetries :: int
  ch_BackoffBase :: int

definition ch_New :: "ch_Config \<Rightarrow> ch_Config" where
  "ch_New cfg =
     (let cfg1 = (if ch_Method cfg = [] then cfg\<lparr>ch_Method := ''POST''\<rparr> else cfg);
          cfg2 = (if ch_BackoffBase cfg1 \<le> 0 then cfg1\<lparr>ch_BackoffBase := 400000000\<rparr> else cfg1)
      in if ch_MaxRetries cfg2 < 0 then cfg2\<lparr>ch_MaxRetries := 0\<rparr> else cfg2)"

text \<open>
  \<open>renderBody\<close> with a blank template marshals a fixed payload, which cannot fail; with a
  template, parsing and executing it can.
\<close>

definition ch_renderBody :: "ch_Config \<Rightarrow> penv \<Rightarrow> ChatRequest \<Rightarrow> chat_error option" where
  "ch_renderBody cfg e req =
     (if TrimSpace (ch_BodyTemplate cfg) = [] then None
      else if \<not> payload_ok e then Some ErrPayload
      else None)"

definition ch_callOnce :: "ch_Config \<Rightarrow> penv \<Rightarrow> nat \<Rightarrow> (string \<times> bool \<times> chat_error option) \<times> event list" where
  "ch_callOnce cfg e attempt =
     (if TrimSpace (ch_URL cfg) = [] then (([], False, Some ErrURLEmpty), [])
      else if \<not> request_ok e then (([], False, Some ErrBuildRequest), [])
      else (case http_result e attempt of
              TransportError \<Rightarrow> (([], True, Some ErrRequestFailed), [HttpDo attempt])
            | BodyReadError status \<Rightarrow> (([], False, Some ErrReadBody), [HttpDo attempt])
            | Response status body \<Rightarrow>
                if status \<ge> 500 \<or> status = 429
                then (([], True, Some (ErrTemporaryStatus status)), [HttpDo attempt])
                else if status < 200 \<or> status > 299
                then (([], False, Some (ErrStatus status)), [HttpDo attempt])
                else (case extractText e body of
                        None \<Rightarrow> (([], False, Some ErrParseBody), [HttpDo attempt])
                      | Some text \<Rightarrow> ((text, False, None), [HttpDo attempt]))))"

definition ch_Chat :: "ch_Config \<Rightarrow> penv \<Rightarrow> ChatRequest \<Rightarrow> (chat_error + string) \<times> event list" where
  "ch_Chat cfg e req =
     (case ch_renderBody cfg e req of
        Some err \<Rightarrow> (Inl err, [])
      | None \<Rightarrow> chat_loop (ch_callOnce cfg e) (ctx_done e) (ch_MaxRetries cfg) (ch_BackoffBase cfg) 0 None)"

subsection \<open>registry\<close>

text \<open>
  The provider configuration is a decoded JSON object; of its values the code only asks
  whether they are strings.
\<close>

datatype jval = JString string | JOther

datatype Provider = OpenAICompat oc_Config | CustomHTTP ch_Config

record BuildOptions =
  bo_Kind :: string
  bo_BaseURL :: string
  bo_APIKey :: string
  bo_Config :: "string \<rightharpoonup> jval"
  bo_MaxRetries :: int
  bo_BackoffBase :: int

definition Build :: "BuildOptions \<Rightarrow> Provider option" where
  "Build opts =
     (if bo_Kind opts \<in> {''openai_compat'', ''openai-compatible'', ''openai''} then
        (let endpoint = (case bo_Config opts ''endpoint'' of
                           Some (JString v) \<Rightarrow> if v \<noteq> [] then v else ''chat_completions''
                         | _ \<Rightarrow> ''chat_completions'')
         in Some (OpenAICompat (oc_New \<lparr>oc_BaseURL = bo_BaseURL opts, oc_APIKey = bo_APIKey opts,
                    oc_Endpoint = endpoint, oc_MaxRetries = bo_MaxRetries opts,
                    oc_BackoffBase = bo_BackoffBase opts\<rparr>)))
      else if bo_Kind opts \<in> {''custom_http'', ''custom-http''} then
        (let bodyTemplate = (case bo_Config opts ''body_template'' of
                               Some (JString v) \<Rightarrow> v | _ \<Rightarrow> []);
             method = (case bo_Config opts ''method'' of
                         Some (JString v) \<Rightarrow> if v \<noteq> [] then v else ''POST''
                       | _ \<Rightarrow> ''POST'')
         in Some (CustomHTTP (ch_New \<lparr>ch_URL = bo_BaseURL opts, ch_APIKey = bo_APIKey opts,
                    ch_BodyTemplate = bodyTemplate, ch_Method = method,
                    ch_MaxRetries = bo_MaxRetries opts, ch_BackoffBase = bo_BackoffBase opts\<rparr>)))
      else None)"

fun Provider_Chat :: "Provider \<Rightarrow> penv \<Rightarrow> ChatRequest \<Rightarrow> (chat_error + string) \<times> event list" where
  "Provider_Chat (OpenAICompat cfg) e req = oc_Chat cfg e req"
| "Provider_Chat (CustomHTTP cfg) e req = ch_Chat cfg e req"

section \<open>The worker (internal/worker)\<close>

record Worker =
  providerRetries :: int
  backoffBase :: int
  maxJobRetries :: int

definition Worker_New :: "Worker \<Rightarrow> Worker" where
  "Worker_New cfg =
     (let cfg1 = (if backoffBase cfg \<le> 0 then cfg\<lparr>backoffBase := 400000000\<rparr> else cfg)
      in if maxJobRetries cfg1 < 0 then cfg1\<lparr>maxJobRetries := 0\<rparr> else cfg1)"

text \<open>
  The environment of one iteration of the consume loop: the Redis commands
  (\<open>w_queue\<close>), whether the database answers (\<open>db_up\<close>), the crypto manager's
  \<open>UnmarshalEncryptedString\<close> and the JSON decoders of the headers, the provider
  configuration and the preset parameters (\<open>None\<close> and \<open>False\<close> are their errors), the
  provider's side (\<open>w_provider\<close>), whether Telegram accepts the reply (\<open>send_up\<close>) and
  the error message (\<open>send_error_up\<close>), and whether the context is cancelled when a read
  of the queue fails (\<open>cancelled\<close>).
\<close>

record wenv =
  w_queue :: qenv
  db_up :: bool
  unmarshalEncrypted :: "string \<Rightarrow> string option"
  json_headers_ok :: "string \<Rightarrow> bool"
  json_config :: "string \<Rightarrow> (string \<rightharpoonup> jval) option"
  json_params :: "string \<Rightarrow> int \<times> bool \<Rightarrow> int \<times> bool"
  w_provider :: penv
  send_up :: bool
  send_error_up :: bool
  cancelled :: bool

record wstate =
  store :: Store
  queue :: redis_stream
  ProcessedJobs :: nat
  FailedJobs :: nat
  trace :: "event list"

datatype job_error =
    ErrResolve store_error | ErrDecryptAPIKey | ErrDecryptHeaders | ErrParseHeaders
  | ErrParseConfig | ErrBuildProvider | ErrProviderChat chat_error | ErrSendResponse

definition SendMessage :: "bool \<Rightarrow> int \<Rightarrow> string \<Rightarrow> int \<Rightarrow> wstate \<Rightarrow> bool \<times> wstate" where
  "SendMessage up chatID text replyTo st =
     (up, st\<lparr>trace := trace st @
            [EvSend chatID text (if replyTo > 0 then Some replyTo else None) up]\<rparr>)"

definition sendError :: "wenv \<Rightarrow> int \<Rightarrow> int \<Rightarrow> string \<Rightarrow> wstate \<Rightarrow> bool \<times> wstate" where
  "sendError e chatID replyTo text st = SendMessage (send_error_up e) chatID text replyTo st"

definition resolvePreset :: "wenv \<Rightarrow> int \<Rightarrow> string \<Rightarrow> Store \<Rightarrow> store_error + (Preset \<times> ProviderInstance)" where
  "resolvePreset e chatID presetName s =
     (if TrimSpace presetName = [] then GetDefaultPresetWithProvider (db_up e) chatID s
      else GetPresetWithProviderByName (db_up e) chatID presetName s)"

definition decryptOptional :: "wenv \<Rightarrow> string option \<Rightarrow> string option" where
  "decryptOptional e raw =
     (case raw of
        None \<Rightarrow> Some []
      | Some r \<Rightarrow> if TrimSpace r = [] then Some [] else unmarshalEncrypted e r)"

text \<open>The text the worker sends for a provider's response (lines 234 to 241 of processJob).\<close>

definition reply_text :: "string \<Rightarrow> string" where
  "reply_text resp =
     (let text = TrimSpace resp;
          text1 = (if text = [] then ''Provider returned an empty response.'' else text)
      in if length (to_runes text1) > 4000 then of_runes (take 4000 (to_runes text1)) else text1)"

definition processJob :: "Worker \<Rightarrow> wenv \<Rightarrow> AskJob \<Rightarrow> wstate \<Rightarrow> job_error option \<times> wstate" where
  "processJob w e job st =
     (case resolvePreset e (ChatID job) (PresetName job) (store st) of
        Inl ErrNotFound \<Rightarrow>
          (None, snd (sendError e (ChatID job) (MessageID job)
                        ''Preset not found. Configure /ai_default or use /ai <preset>.'' st))
      | Inl err \<Rightarrow> (Some (ErrResolve err), st)
      | Inr (preset, provider) \<Rightarrow>
          (case decryptOptional e (prov_EncAPIKey provider) of
             None \<Rightarrow> (Some ErrDecryptAPIKey, st)
           | Some apiKey \<Rightarrow>
               (case decryptOptional e (prov_EncHeadersJSON provider) of
                  None \<Rightarrow> (Some ErrDecryptHeaders, st)
                | Some raw \<Rightarrow>
                    if TrimSpace raw \<noteq> [] \<and> \<not> json_headers_ok e raw then (Some ErrParseHeaders, st)
                    else
                      (case (if TrimSpace (prov_ConfigJSON provider) \<noteq> []
                             then json_config e (prov_ConfigJSON provider) else Some Map.empty) of
                         None \<Rightarrow> (Some ErrParseConfig, st)
                       | Some providerCfg \<Rightarrow>
                           (case Build \<lparr>bo_Kind = prov_Kind provider, bo_BaseURL = prov_BaseURL provider,
                                         bo_APIKey = apiKey, bo_Config = providerCfg,
                                         bo_MaxRetries = providerRetries w,
                                         bo_BackoffBase = backoffBase w\<rparr> of
                              None \<Rightarrow> (Some ErrBuildProvider, st)
                            | Some p \<Rightarrow>
                                (let params = (if TrimSpace (pre_ParamsJSON preset) \<noteq> []
                                               then json_params e (TrimSpace (pre_ParamsJSON preset)) (1024, False)
                                               else (1024, False))
                                 in case Provider_Chat p (w_provider e)
                                           \<lparr>req_Model = pre_Model preset,
                                            req_SystemPrompt = pre_SystemPrompt preset,
                                            req_UserPrompt = Prompt job,
                                            req_MaxTokens = fst params,
                                            req_AllowTools = snd params\<rparr> of
                                      (Inl err, evs) \<Rightarrow>
                                        (Some (ErrProviderChat err), st\<lparr>trace := trace st @ evs\<rparr>)
                                    | (Inr resp, evs) \<Rightarrow>
                                        (case SendMessage (send_up e) (ChatID job) (reply_text resp)
                                                (MessageID job) (st\<lparr>trace := trace st @ evs\<rparr>) of
                                           (ok, st1) \<Rightarrow>
                                             if ok then (None, st1) else (Some ErrSendResponse, st1))))))))"

definition queue_Enqueue :: "wenv \<Rightarrow> AskJob \<Rightarrow> wstate \<Rightarrow> (queue_error + nat) \<times> wstate" where
  "queue_Enqueue e job st =
     (case Enqueue (w_queue e) job (queue st) of
        (r, q) \<Rightarrow> (r, st\<lparr>queue := q, trace := trace st @ [EvEnqueue job (case r of Inl err \<Rightarrow> False | Inr i \<Rightarrow> True)]\<rparr>))"

definition queue_Ack :: "wenv \<Rightarrow> nat \<Rightarrow> wstate \<Rightarrow> queue_error option \<times> wstate" where
  "queue_Ack e messageID st =
     (case Ack (w_queue e) messageID (queue st) of
        (err, q) \<Rightarrow> (err, st\<lparr>queue := q, trace := trace st @ [EvAck messageID (err = None)]\<rparr>))"

text \<open>
  The body of the loop over the messages of one read (lines 140 to 169 of consumeLoop).
  Errors of \<open>Ack\<close> and of \<open>sendError\<close> are logged or dropped by the code, and change
  nothing else.
\<close>

definition handleMessage :: "Worker \<Rightarrow> wenv \<Rightarrow> Message \<Rightarrow> wstate \<Rightarrow> wstate" where
  "handleMessage w e msg st =
     (case processJob w e (Job msg) st of
        (None, st1) \<Rightarrow>
          snd (queue_Ack e (ID msg)
                 (st1\<lparr>ProcessedJobs := Suc (ProcessedJobs st1), trace := trace st1 @ [EvProcessed]\<rparr>))
      | (Some err, st1) \<Rightarrow>
          (let st2 = st1\<lparr>FailedJobs := Suc (FailedJobs st1), trace := trace st1 @ [EvFailed]\<rparr>
           in if Attempts (Job msg) < maxJobRetries w then
                (let job1 = (Job msg)\<lparr>Attempts := Attempts (Job msg) + 1\<rparr>
                 in case queue_Enqueue e job1 st2 of
                      (Inl enqueueErr, st3) \<Rightarrow> st3
                    | (Inr i, st3) \<Rightarrow> snd (queue_Ack e (ID msg) st3))
              else snd (queue_Ack e (ID msg)
                          (snd (sendError e (ChatID (Job msg)) (MessageID (Job msg))
                                  ''LLM provider error. Please try again later.'' st2)))))"

fun handleMessages :: "Worker \<Rightarrow> wenv \<Rightarrow> Message list \<Rightarrow> wstate \<Rightarrow> wstate" where
  "handleMessages w e [] st = st"
| "handleMessages w e (msg # msgs) st = handleMessages w e msgs (handleMessage w e msg st)"

text \<open>
  One iteration of \<open>consumeLoop\<close> after the check of \<open>ctx.Err()\<close>; \<open>False\<close> is the
  \<open>return\<close> after a failed read under a cancelled context. The loop itself runs until the
  context is cancelled: \<open>consumeLoop\<close> takes the environments of the iterations that
  start before that, in order.
\<close>

definition iteration :: "Worker \<Rightarrow> wenv \<Rightarrow> wstate \<Rightarrow> bool \<times> wstate" where
  "iteration w e st =
     (case Read (w_queue e) 1 (queue st) of
        (Inl err, q) \<Rightarrow>
          if cancelled e then (False, st\<lparr>queue := q\<rparr>)
          else (True, st\<lparr>queue := q, trace := trace st @ [Sleep 1000000000]\<rparr>)
      | (Inr messages, q) \<Rightarrow> (True, handleMessages w e messages (st\<lparr>queue := q\<rparr>)))"

fun consumeLoop :: "Worker \<Rightarrow> wenv list \<Rightarrow> wstate \<Rightarrow> wstate" where
  "consumeLoop w [] st = st"
| "consumeLoop w (e # es) st =
     (case iteration w e st of
        (True, st1) \<Rightarrow> consumeLoop w es st1
      | (False, st1) \<Rightarrow> st1)"

section \<open>Rate limiting and deduplication (internal/queue)\<close>

text \<open>
  A \<open>time.Time\<close> is the number of nanoseconds since Go's zero time (1 January of year 1,
  00:00 UTC), and a \<open>time.Duration\<close> a number of nanoseconds. The zero time is the start of
  an hour, so \<open>Truncate(time.Hour)\<close> of \<open>t\<close> is \<open>t - t mod hour\<close>.
\<close>

definition second :: int where
  "second = 1000000000"

definition minute :: int where
  "minute = 60 * second"

definition hour :: int where
  "hour = 60 * minute"

text \<open>
  What the code cannot decide of Redis: its clock, and whether a command succeeds. A key
  with a time to live is stored with the time at which it expires; \<open>live\<close> is what a
  command finds under a key at time \<open>t\<close>.
\<close>

record redis_clock =
  rc_now :: int
  rc_up :: bool

type_synonym rate_key = "int \<times> int \<times> int"

type_synonym rate_store = "rate_key \<rightharpoonup> (int \<times> int option)"

definition live :: "int \<Rightarrow> (int \<times> int option) option \<Rightarrow> (int \<times> int option) option" where
  "live t v =
     (case v of
        None \<Rightarrow> None
      | Some (c, None) \<Rightarrow> Some (c, None)
      | Some (c, Some ex) \<Rightarrow> if t < ex then Some (c, Some ex) else None)"

datatype redis_error = ErrRedis

text \<open>
  The script \<open>incrWithTTLScript\<close>: \<open>INCR\<close> of the key (a missing key counts from 0, a
  value of \<open>2 ^ 63 - 1\<close> is an error), and \<open>EXPIRE\<close> with the given seconds when the new
  value is 1. The key of a counter is chat, user and the start of the hour (the code formats
  the hour as \<open>2006010215\<close>, which is one string for each hour).
\<close>

definition incrWithTTLScript :: "redis_clock \<Rightarrow> rate_key \<Rightarrow> int \<Rightarrow> rate_store \<Rightarrow> (redis_error + int) \<times> rate_store" where
  "incrWithTTLScript r key ttl st =
     (if \<not> rc_up r then (Inl ErrRedis, st)
      else (case (case live (rc_now r) (st key) of None \<Rightarrow> (0, None) | Some v \<Rightarrow> v) of
              (c0, ex0) \<Rightarrow>
                if c0 = 2 ^ 63 - 1 then (Inl ErrRedis, st)
                else (let c = c0 + 1;
                          ex = (if c = 1 then Some (rc_now r + ttl * second) else ex0)
                      in (Inr c, st(key \<mapsto> (c, ex))))))"

text \<open>
  \<open>Allow\<close>: \<open>Seconds()\<close> of a duration below an hour, converted to \<open>int64\<close>, is the
  number of whole seconds. The error result stands for \<open>(false, 0, time.Time{}, err)\<close>.
\<close>

record RateLimiter =
  limit :: int

definition Allow :: "redis_clock \<Rightarrow> RateLimiter \<Rightarrow> int \<Rightarrow> int \<Rightarrow> int \<Rightarrow> rate_store
    \<Rightarrow> (redis_error + (bool \<times> int \<times> int)) \<times> rate_store" where
  "Allow r rl chatID userID now st =
     (let windowStart = now - now mod hour;
          windowEnd = windowStart + hour;
          ttl0 = (windowEnd - now) div second;
          ttl = (if ttl0 < 1 then 1 else ttl0)
      in (case incrWithTTLScript r (chatID, userID, windowStart) ttl st of
            (Inl err, st1) \<Rightarrow> (Inl err, st1)
          | (Inr res, st1) \<Rightarrow> (Inr (res \<le> limit rl, res, windowEnd), st1)))"

text \<open>
  \<open>MarkFirst\<close> is \<open>SETNX\<close> of the key of the update id with the time to live \<open>ttl\<close> (none
  when it is 0): true when the key was not there.
\<close>

record UpdateDeduplicator =
  d_ttl :: int

type_synonym dedupe_store = "int \<rightharpoonup> int option"

definition MarkFirst :: "redis_clock \<Rightarrow> UpdateDeduplicator \<Rightarrow> int \<Rightarrow> dedupe_store
    \<Rightarrow> (redis_error + bool) \<times> dedupe_store" where
  "MarkFirst r d updateID st =
     (if \<not> rc_up r then (Inl ErrRedis, st)
      else (case st updateID of
              Some None \<Rightarrow> (Inr False, st)
            | Some (Some ex) \<Rightarrow>
                if rc_now r < ex then (Inr False, st)
                else (Inr True, st(updateID \<mapsto> (if 0 < d_ttl d then Some (rc_now r + d_ttl d) else None)))
            | None \<Rightarrow>
                (Inr True, st(updateID \<mapsto> (if 0 < d_ttl d then Some (rc_now r + d_ttl d) else None)))))"

section \<open>The ingress (internal/telegram)\<close>

text \<open>
  What the handlers read of an update (\<open>ext.Context\<close>): the update id, the id of the
  effective user, the effective chat and the effective message, each of which can be
  absent. \<open>GetText\<close> is the text of the message as the method \<open>GetText\<close> returns it.
\<close>

record TgChat =
  tg_Id :: int
  tg_Type :: string
  tg_Title :: string

record TgMessage =
  MessageId :: int
  GetText :: string
  msg_Chat :: TgChat

record Context =
  UpdateId :: int
  EffectiveUser :: "int option"
  EffectiveChat :: "TgChat option"
  EffectiveMessage :: "TgMessage option"

subsection \<open>The update processor\<close>

text \<open>
  \<open>Processor\<close> has the fields \<open>Base\<close>, \<open>Dedupe\<close>, \<open>Metrics\<close> and \<open>Logger\<close>;
  \<open>Metrics\<close> is whether it is set. \<open>Base.ProcessUpdate\<close> runs the handlers of the
  dispatcher on the update: \<open>dispatched\<close> lists the updates it was called on.
  \<open>ProcessUpdate\<close> reads the update id and nothing else of the update.
\<close>

record Processor =
  Dedupe :: "UpdateDeduplicator option"
  Metrics :: bool

record pstate =
  UpdatesTotal :: nat
  seen :: dedupe_store
  dispatched :: "Context list"

definition Base_ProcessUpdate :: "Context \<Rightarrow> pstate \<Rightarrow> pstate" where
  "Base_ProcessUpdate ctx st = st\<lparr>dispatched := dispatched st @ [ctx]\<rparr>"

definition ProcessUpdate :: "Processor \<Rightarrow> redis_clock \<Rightarrow> Context \<Rightarrow> pstate \<Rightarrow> pstate" where
  "ProcessUpdate p r ctx st =
     (let st1 = (if Metrics p then st\<lparr>UpdatesTotal := Suc (UpdatesTotal st)\<rparr> else st)
      in (case Dedupe p of
            None \<Rightarrow> Base_ProcessUpdate ctx st1
          | Some d \<Rightarrow>
              (case MarkFirst r d (UpdateId ctx) (seen st1) of
                 (Inl err, sn) \<Rightarrow> Base_ProcessUpdate ctx (st1\<lparr>seen := sn\<rparr>)
               | (Inr first, sn) \<Rightarrow>
                   if \<not> first then st1\<lparr>seen := sn\<rparr>
                   else Base_ProcessUpdate ctx (st1\<lparr>seen := sn\<rparr>))))"

text \<open>
  What \<open>main\<close> does with the access mode: it computes \<open>allowedUserID\<close> (the admin's id
  in private mode, 0 in public mode) and writes it into the literal of the processor as
  \<open>AllowedUserID\<close>, a field that the type \<open>Processor\<close> does not declare and that
  \<open>ProcessUpdate\<close> does not read. The processor has a deduplicator and the global metrics.
\<close>

record Config =
  BotAccessMode :: string
  AdminUserID :: int
  UpdateTTL :: int
  PerHour :: int

definition allowedUserID :: "Config \<Rightarrow> int" where
  "allowedUserID cfg = (if BotAccessMode cfg = ''private'' then AdminUserID cfg else 0)"

definition main_Processor :: "Config \<Rightarrow> Processor" where
  "main_Processor cfg = \<lparr>Dedupe = Some \<lparr>d_ttl = UpdateTTL cfg\<rparr>, Metrics = True\<rparr>"

subsection \<open>The handlers of /ask and /ai\<close>

text \<open>
  What a handler does to the outside is recorded as events: a reply sent to a chat (and
  whether sending succeeded), a call of the rate limiter (chat, user, time), an enqueue of a
  job (and whether it succeeded). The service has a rate limiter or none. \<open>senv\<close> is what
  the handlers cannot decide: the queue's and Redis' behaviour, the clock, whether Telegram
  accepts a message, whether each statement of the database succeeds, the result of the
  admin check (\<open>isAdmin\<close>, which asks Redis and Telegram; \<open>None\<close> is an error), and
  \<open>json.Marshal\<close> and \<open>json.Valid\<close>.
\<close>

datatype ievent = IvReply int string bool | IvAllow int int int | IvEnqueue AskJob bool

datatype handler_error = ErrSendMessage | ErrNilMessage

record Service =
  rateLimiter :: "RateLimiter option"

record senv =
  s_qenv :: qenv
  s_redis :: redis_clock
  s_now :: int
  reply_up :: bool
  ensure_up :: bool
  get_provider_up :: bool
  upsert_up :: bool
  get_default_up :: bool
  set_default_up :: bool
  delete_up :: bool
  clear_up :: bool
  audit_up :: bool
  isAdmin :: "int \<Rightarrow> int \<Rightarrow> bool option"
  json_Marshal :: "(string \<times> string) list \<Rightarrow> string"
  json_Valid :: "string \<Rightarrow> bool"

record sstate =
  s_store :: Store
  s_stream :: redis_stream
  s_rate :: rate_store
  EnqueuedJobs :: nat
  s_trace :: "ievent list"

definition reply :: "senv \<Rightarrow> Context \<Rightarrow> string \<Rightarrow> sstate \<Rightarrow> handler_error option \<times> sstate" where
  "reply e ctx txt st =
     (case EffectiveChat ctx of
        None \<Rightarrow> (None, st)
      | Some chat \<Rightarrow>
          (if reply_up e then None else Some ErrSendMessage,
           st\<lparr>s_trace := s_trace st @ [IvReply (tg_Id chat) txt (reply_up e)]\<rparr>))"

text \<open>
  \<open>commandRemainder\<close> is what follows the first space of the trimmed text
  (\<open>strings.SplitN\<close> with \<open>n = 2\<close>); \<open>splitFirstWord\<close> cuts at the first space
  (\<open>strings.IndexByte\<close>).
\<close>

definition commandRemainder :: "string \<Rightarrow> string" where
  "commandRemainder txt =
     (case dropWhile (\<lambda>c. c \<noteq> CHR '' '') (TrimSpace txt) of
        [] \<Rightarrow> []
      | c # rest \<Rightarrow> rest)"

definition splitFirstWord :: "string \<Rightarrow> string \<times> string" where
  "splitFirstWord s0 =
     (let s = TrimSpace s0
      in if s = [] then ([], [])
         else (case dropWhile (\<lambda>c. c \<noteq> CHR '' '') s of
                 [] \<Rightarrow> (s, [])
               | c # rest \<Rightarrow> (takeWhile (\<lambda>c. c \<noteq> CHR '' '') s, TrimSpace rest)))"

definition userID :: "Context \<Rightarrow> int" where
  "userID ctx = (case EffectiveUser ctx of None \<Rightarrow> 0 | Some u \<Rightarrow> u)"

text \<open>\<open>Format("15:04 UTC")\<close> of a time: hour and minute with two digits each.\<close>

definition two_digits :: "int \<Rightarrow> string" where
  "two_digits n = [char_of (48 + n div 10), char_of (48 + n mod 10)]"

definition Format_1504_UTC :: "int \<Rightarrow> string" where
  "Format_1504_UTC t =
     two_digits ((t div hour) mod 24) @ '':'' @ two_digits ((t div minute) mod 60) @ '' UTC''"

definition allowRate :: "Service \<Rightarrow> senv \<Rightarrow> int \<Rightarrow> int \<Rightarrow> Context \<Rightarrow> sstate \<Rightarrow> bool \<times> sstate" where
  "allowRate s e chatID uid ctx st =
     (if uid = 0 \<or> rateLimiter s = None then (True, st)
      else (case Allow (s_redis e) (the (rateLimiter s)) chatID uid (s_now e) (s_rate st) of
              (r, rs) \<Rightarrow>
                (let st1 = st\<lparr>s_rate := rs, s_trace := s_trace st @ [IvAllow chatID uid (s_now e)]\<rparr>
                 in (case r of
                       Inl err \<Rightarrow> (True, st1)
                     | Inr (ok, used, resetAt) \<Rightarrow>
                         if ok then (True, st1)
                         else (False, snd (reply e ctx (''Rate limit exceeded. Try again after ''
                                             @ Format_1504_UTC resetAt) st1))))))"

definition ensureChat :: "senv \<Rightarrow> TgMessage \<Rightarrow> sstate \<Rightarrow> sstate" where
  "ensureChat e msg st =
     st\<lparr>s_store := snd (EnsureChat (ensure_up e) (tg_Id (msg_Chat msg)) (tg_Type (msg_Chat msg))
                          (tg_Title (msg_Chat msg)) (s_store st))\<rparr>"

text \<open>
  \<open>ask\<close> and \<open>ai\<close> end with the same statements: enqueue the job, reply that the queue is
  unavailable when that failed, count the job and reply that it was accepted otherwise.
  They are \<open>enqueue_job\<close> here.
\<close>

definition enqueue_job :: "senv \<Rightarrow> Context \<Rightarrow> AskJob \<Rightarrow> sstate \<Rightarrow> handler_error option \<times> sstate" where
  "enqueue_job e ctx job st =
     (case Enqueue (s_qenv e) job (s_stream st) of
        (Inl err, q) \<Rightarrow>
          reply e ctx ''Queue is unavailable right now.''
            (st\<lparr>s_stream := q, s_trace := s_trace st @ [IvEnqueue job False]\<rparr>)
      | (Inr i, q) \<Rightarrow>
          reply e ctx ''Accepted. Processing in queue.''
            (st\<lparr>s_stream := q, s_trace := s_trace st @ [IvEnqueue job True],
                EnqueuedJobs := Suc (EnqueuedJobs st)\<rparr>))"

definition ask :: "Service \<Rightarrow> senv \<Rightarrow> Context \<Rightarrow> sstate \<Rightarrow> handler_error option \<times> sstate" where
  "ask s e ctx st =
     (case EffectiveMessage ctx of
        None \<Rightarrow> (None, st)
      | Some msg \<Rightarrow>
          (case EffectiveChat ctx of
             None \<Rightarrow> (None, st)
           | Some chat \<Rightarrow>
               (let prompt = TrimSpace (commandRemainder (GetText msg))
                in if prompt = [] then reply e ctx ''Usage: /ask <text>'' st
                   else (case allowRate s e (tg_Id chat) (userID ctx) ctx st of
                           (ok, st1) \<Rightarrow>
                             if \<not> ok then (None, st1)
                             else enqueue_job e ctx
                                    \<lparr>JobID = [], ChatID = tg_Id chat, ChatType = tg_Type chat,
                                     UserID = userID ctx, MessageID = MessageId msg, Prompt = prompt,
                                     PresetName = [], EnqueuedAt = 0, Attempts = 0\<rparr>
                                    (ensureChat e msg st1)))))"

definition ai :: "Service \<Rightarrow> senv \<Rightarrow> Context \<Rightarrow> sstate \<Rightarrow> handler_error option \<times> sstate" where
  "ai s e ctx st =
     (case EffectiveMessage ctx of
        None \<Rightarrow> (None, st)
      | Some msg \<Rightarrow>
          (case EffectiveChat ctx of
             None \<Rightarrow> (None, st)
           | Some chat \<Rightarrow>
               (case splitFirstWord (TrimSpace (commandRemainder (GetText msg))) of
                  (preset, prompt) \<Rightarrow>
                    if preset = [] \<or> prompt = [] then reply e ctx ''Usage: /ai <preset> <text>'' st
                    else (case allowRate s e (tg_Id chat) (userID ctx) ctx st of
                            (ok, st1) \<Rightarrow>
                              if \<not> ok then (None, st1)
                              else enqueue_job e ctx
                                     \<lparr>JobID = [], ChatID = tg_Id chat, ChatType = tg_Type chat,
                                      UserID = userID ctx, MessageID = MessageId msg, Prompt = prompt,
                                      PresetName = preset, EnqueuedAt = 0, Attempts = 0\<rparr>
                                     (ensureChat e msg st1)))))"

section \<open>Notions used in the statements\<close>

text \<open>
  These are not of the source: they classify the events of a trace and name the
  situations the theorems speak about. \<open>retry_trace base a m\<close> is the trace of a call
  whose attempts \<open>a\<close> to \<open>m\<close> all fail in a way that is retried: each attempt but the
  last is followed by its sleep. \<open>always_503\<close>: the provider answers every request with
  status 503 and nothing else goes wrong. \<open>provider_ready\<close>: the steps of \<open>processJob\<close>
  before the call of the provider succeed (the preset resolves, the secrets decrypt, the
  JSON decodes, the kind is known and the base URL is not blank).
\<close>

definition is_queue_op :: "event \<Rightarrow> bool" where
  "is_queue_op ev = (case ev of EvEnqueue j ok \<Rightarrow> True | EvAck i ok \<Rightarrow> True | _ \<Rightarrow> False)"

definition is_provider_event :: "event \<Rightarrow> bool" where
  "is_provider_event ev = (case ev of HttpDo k \<Rightarrow> True | Sleep d \<Rightarrow> True | _ \<Rightarrow> False)"

definition retry_trace :: "int \<Rightarrow> nat \<Rightarrow> nat \<Rightarrow> event list" where
  "retry_trace base a m = concat (map (\<lambda>k. [HttpDo k, Sleep (backoff base k)]) [a..<m]) @ [HttpDo m]"

definition always_503 :: "penv \<Rightarrow> bool" where
  "always_503 pe \<longleftrightarrow> payload_ok pe \<and> request_ok pe
     \<and> (\<forall>k. \<exists>body. http_result pe k = Response 503 body) \<and> (\<forall>k. \<not> ctx_done pe k)"

definition provider_ready :: "wenv \<Rightarrow> AskJob \<Rightarrow> Store \<Rightarrow> bool" where
  "provider_ready e job s =
     (case resolvePreset e (ChatID job) (PresetName job) s of
        Inl err \<Rightarrow> False
      | Inr (preset, provider) \<Rightarrow>
          (case decryptOptional e (prov_EncAPIKey provider) of
             None \<Rightarrow> False
           | Some apiKey \<Rightarrow>
               (case decryptOptional e (prov_EncHeadersJSON provider) of
                  None \<Rightarrow> False
                | Some raw \<Rightarrow>
                    (TrimSpace raw = [] \<or> json_headers_ok e raw)
                    \<and> (if TrimSpace (prov_ConfigJSON provider) \<noteq> []
                        then json_config e (prov_ConfigJSON provider) else Some Map.empty) \<noteq> None
                    \<and> prov_Kind provider \<in> {''openai_compat'', ''openai-compatible'', ''openai'',
                                               ''custom_http'', ''custom-http''}
                    \<and> TrimSpace (prov_BaseURL provider) \<noteq> [])))"

definition is_enqueue :: "event \<Rightarrow> bool" where
  "is_enqueue ev = (case ev of EvEnqueue j ok \<Rightarrow> True | _ \<Rightarrow> False)"

definition is_send :: "event \<Rightarrow> bool" where
  "is_send ev = (case ev of EvSend c t r ok \<Rightarrow> True | _ \<Rightarrow> False)"

definition is_http :: "event \<Rightarrow> bool" where
  "is_http ev = (case ev of HttpDo k \<Rightarrow> True | _ \<Rightarrow> False)"


text \<open>
  The retry rule both adapters follow: an exchange is retried when \<open>HTTPClient.Do\<close> failed,
  or when a response with status 5xx or 429 arrived and its body was read. It is not retried
  when the body could not be read, whatever the status. \<open>policy_trace base http cn n k\<close> is
  what a call with \<open>n\<close> retries left does from attempt \<open>k\<close> on: the HTTP exchange, and when
  it is retryable and the context is not cancelled, a sleep of \<open>backoff base k\<close> (the
  \<open>int64\<close> product of \<open>base\<close> and \<open>2 ^ k\<close>) and the next attempt.
\<close>

definition retryable :: "http_outcome \<Rightarrow> bool" where
  "retryable out =
     (case out of
        TransportError \<Rightarrow> True
      | BodyReadError status \<Rightarrow> False
      | Response status body \<Rightarrow> status \<ge> 500 \<or> status = 429)"

fun policy_trace :: "int \<Rightarrow> (nat \<Rightarrow> http_outcome) \<Rightarrow> (nat \<Rightarrow> bool) \<Rightarrow> nat \<Rightarrow> nat \<Rightarrow> event list" where
  "policy_trace base http cn 0 k = [HttpDo k]"
| "policy_trace base http cn (Suc n) k =
     (if retryable (http k) \<and> \<not> cn k
      then HttpDo k # Sleep (backoff base k) # policy_trace base http cn n (Suc k)
      else [HttpDo k])"

section \<open>A scenario: one job, a provider that always answers 503\<close>

text \<open>
  The retry-exhaust scenario of the specification: chat 111 has the provider \<open>p\<close>
  (openai\_compat) and the default preset \<open>grok_default\<close>; the stream holds one job with
  \<open>attempts = 0\<close>; the provider answers every call with status 503; Redis, the database
  and Telegram work. The worker is configured with \<open>HTTP_MAX_RETRIES = 2\<close> and
  \<open>WORKER_MAX_RETRIES = 3\<close> (the defaults of \<open>config.Load\<close>).
\<close>

definition demo_provider :: ProviderInstance where
  "demo_provider = \<lparr>prov_ID = 1, prov_ChatID = 111, prov_Name = ''p'', prov_Kind = ''openai_compat'',
     prov_BaseURL = ''https://api.example/v1'', prov_EncAPIKey = None, prov_EncHeadersJSON = None,
     prov_ConfigJSON = ''{}''\<rparr>"

definition demo_preset :: Preset where
  "demo_preset = \<lparr>pre_ChatID = 111, pre_Name = ''grok_default'', pre_ProviderInstanceID = 1,
     pre_Model = ''m'', pre_SystemPrompt = ''sys'', pre_ParamsJSON = ''{}''\<rparr>"

definition demo_store :: Store where
  "demo_store = \<lparr>chats = [111 \<mapsto> \<lparr>chat_type = ''group'', chat_title = ''t'',
                                  default_preset_name = Some ''grok_default''\<rparr>],
     provider_instances = [demo_provider],
     presets = [(111, ''grok_default'') \<mapsto> demo_preset],
     audit_log = []\<rparr>"

definition demo_job :: AskJob where
  "demo_job = \<lparr>JobID = ''a1'', ChatID = 111, ChatType = ''group'', UserID = 7, MessageID = 5,
     Prompt = ''hello'', PresetName = [], EnqueuedAt = 1, Attempts = 0\<rparr>"

definition demo_state :: wstate where
  "demo_state = \<lparr>store = demo_store,
     queue = \<lparr>entries = [(1, demo_job)], last_id = 1, last_delivered = 0, pel = []\<rparr>,
     ProcessedJobs = 0, FailedJobs = 0, trace = []\<rparr>"

definition redis_up :: qenv where
  "redis_up = \<lparr>new_job_id = ''f00d'', time_now = 2, xadd_up = True, xread_up = True,
     xack_up = True, xdel_up = True\<rparr>"

definition provider_503 :: penv where
  "provider_503 = \<lparr>payload_ok = True, request_ok = True, http_result = (\<lambda>k. Response 503 []),
     parseChatCompletions = (\<lambda>b. Some b), parseResponsesAPI = (\<lambda>b. Some b),
     extractText = (\<lambda>b. Some b), ctx_done = (\<lambda>k. False)\<rparr>"

definition env_503 :: wenv where
  "env_503 = \<lparr>w_queue = redis_up, db_up = True, unmarshalEncrypted = (\<lambda>r. Some r),
     json_headers_ok = (\<lambda>r. True), json_config = (\<lambda>r. Some Map.empty),
     json_params = (\<lambda>r d. d), w_provider = provider_503, send_up = True, send_error_up = True,
     cancelled = False\<rparr>"

definition demo_worker :: Worker where
  "demo_worker = Worker_New \<lparr>providerRetries = 2, backoffBase = 400000000, maxJobRetries = 3\<rparr>"

text \<open>One configuration of each adapter, and a request.\<close>

definition demo_oc :: oc_Config where
  "demo_oc = \<lparr>oc_BaseURL = ''https://api.example/v1'', oc_APIKey = ''K'', oc_Endpoint = [],
     oc_MaxRetries = 2, oc_BackoffBase = 400000000\<rparr>"

definition demo_ch :: ch_Config where
  "demo_ch = \<lparr>ch_URL = ''https://llm.example/run'', ch_APIKey = ''K'', ch_BodyTemplate = [],
     ch_Method = [], ch_MaxRetries = 2, ch_BackoffBase = 400000000\<rparr>"

definition demo_req :: ChatRequest where
  "demo_req = \<lparr>req_Model = ''m'', req_SystemPrompt = ''sys'', req_UserPrompt = ''hello'',
     req_MaxTokens = 1024, req_AllowTools = False\<rparr>"

text \<open>
  A provider whose every response has status 503 and a body that cannot be read, and a
  configuration whose backoff base is \<open>2 ^ 62\<close> nanoseconds.
\<close>

definition provider_unreadable :: penv where
  "provider_unreadable = provider_503\<lparr>http_result := (\<lambda>k. BodyReadError 503)\<rparr>"

definition demo_oc_long :: oc_Config where
  "demo_oc_long = demo_oc\<lparr>oc_BackoffBase := 4611686018427387904\<rparr>"

text \<open>The state of the scenario after the worker has read the job from the stream.\<close>

definition demo_read_state :: wstate where
  "demo_read_state = demo_state\<lparr>queue := snd (Read redis_up 1 (queue demo_state))\<rparr>"



definition private_cfg :: Config where
  "private_cfg = \<lparr>BotAccessMode = ''private'', AdminUserID = 42, UpdateTTL = 86400 * second,
     PerHour = 20\<rparr>"

definition stranger_chat :: TgChat where
  "stranger_chat = \<lparr>tg_Id = 7, tg_Type = ''private'', tg_Title = []\<rparr>"

definition stranger_update :: Context where
  "stranger_update = \<lparr>UpdateId = 1000, EffectiveUser = Some 7, EffectiveChat = Some stranger_chat,
     EffectiveMessage = Some \<lparr>MessageId = 1, GetText = ''/ask hi'', msg_Chat = stranger_chat\<rparr>\<rparr>"

definition pstate0 :: pstate where
  "pstate0 = \<lparr>UpdatesTotal = 0, seen = Map.empty, dispatched = []\<rparr>"





definition t_1000 :: int where
  "t_1000 = 63906573600000000000"



definition t_first :: int where
  "t_first = 63906574500500000000"

definition t_late :: int where
  "t_late = 63906577199700000000"

definition t_1100 :: int where
  "t_1100 = 63906577200000000000"

definition one_per_hour :: RateLimiter where
  "one_per_hour = \<lparr>limit = 1\<rparr>"

section \<open>Properties\<close>

subsection \<open>Events of the adapters and of processJob\<close>

lemma chat_loop_events:
  assumes "\<And>k. \<forall>ev \<in> set (snd (callOnce k)). is_provider_event ev"
  shows "\<forall>ev \<in> set (snd (chat_loop callOnce dn m base a le)). is_provider_event ev"
proof (induction "nat (m + 1 - int a)" arbitrary: a le)
  case 0
  then have "\<not> int a \<le> m" by simp
  then show ?case by (simp add: chat_loop.simps [of _ _ _ _ a])
next
  case (Suc n)
  then have le: "int a \<le> m" by simp
  obtain t r oe evs where c: "callOnce a = ((t, r, oe), evs)"
    by (metis prod_cases3 surj_pair)
  have evs: "\<forall>ev \<in> set evs. is_provider_event ev"
    using assms [of a] c by simp
  have n: "n = nat (m + 1 - int (Suc a))" using Suc.hyps(2) by simp
  show ?case
  proof (cases oe)
    case None
    then show ?thesis using le c evs by (simp add: chat_loop.simps [of _ _ _ _ a])
  next
    case (Some err)
    obtain r' evs' where rec: "chat_loop callOnce dn m base (Suc a) (Some err) = (r', evs')"
      by (cases "chat_loop callOnce dn m base (Suc a) (Some err)")
    have IH: "\<forall>ev \<in> set evs'. is_provider_event ev"
      using Suc.hyps(1) [OF n, of "Some err"] rec by simp
    have sl: "is_provider_event (Sleep (backoff base a))"
      by (simp add: is_provider_event_def)
    show ?thesis
      using le c evs Some rec IH sl by (auto simp: chat_loop.simps [of _ _ _ _ a])
  qed
qed

lemma oc_callOnce_events: "\<forall>ev \<in> set (snd (oc_callOnce cfg e k)). is_provider_event ev"
  by (auto simp: oc_callOnce_def is_provider_event_def split: http_outcome.splits option.splits)

lemma ch_callOnce_events: "\<forall>ev \<in> set (snd (ch_callOnce cfg e k)). is_provider_event ev"
  by (auto simp: ch_callOnce_def is_provider_event_def split: http_outcome.splits option.splits)

lemma Provider_Chat_events: "\<forall>ev \<in> set (snd (Provider_Chat p e req)). is_provider_event ev"
proof (cases p)
  case (OpenAICompat cfg)
  then show ?thesis
    using chat_loop_events [of "oc_callOnce cfg e", OF oc_callOnce_events]
    by (simp add: oc_Chat_def split: option.splits)
next
  case (CustomHTTP cfg)
  then show ?thesis
    using chat_loop_events [of "ch_callOnce cfg e", OF ch_callOnce_events]
    by (simp add: ch_Chat_def split: option.splits)
qed

lemma processJob_cases:
  obtains (quiet) r where "processJob w e job st = (r, st)"
  | (notfound) "processJob w e job st =
       (None, st\<lparr>trace := trace st @
          [EvSend (ChatID job) ''Preset not found. Configure /ai_default or use /ai <preset>.''
             (if MessageID job > 0 then Some (MessageID job) else None) (send_error_up e)]\<rparr>)"
  | (chatfail) p req err evs where
      "Provider_Chat p (w_provider e) req = (Inl err, evs)"
      "processJob w e job st = (Some (ErrProviderChat err), st\<lparr>trace := trace st @ evs\<rparr>)"
  | (chatok) p req resp evs where
      "Provider_Chat p (w_provider e) req = (Inr resp, evs)"
      "processJob w e job st =
         (if send_up e then None else Some ErrSendResponse,
          st\<lparr>trace := trace st @ evs @
             [EvSend (ChatID job) (reply_text resp)
                (if MessageID job > 0 then Some (MessageID job) else None) (send_up e)]\<rparr>)"
proof (cases "resolvePreset e (ChatID job) (PresetName job) (store st)")
  case (Inl err)
  show ?thesis
  proof (cases err)
    case ErrNotFound
    with Inl show ?thesis
      by (intro notfound) (simp add: processJob_def sendError_def SendMessage_def)
  next
    case ErrDB
    with Inl show ?thesis
      by (intro quiet [of "Some (ErrResolve ErrDB)"]) (simp add: processJob_def)
  qed
next
  case (Inr pp)
  obtain preset provider where pp: "pp = (preset, provider)" by (cases pp)
  note r = Inr [unfolded pp]
  show ?thesis
  proof (cases "decryptOptional e (prov_EncAPIKey provider)")
    case None
    with r show ?thesis
      by (intro quiet [of "Some ErrDecryptAPIKey"]) (simp add: processJob_def)
  next
    case k: (Some apiKey)
    show ?thesis
    proof (cases "decryptOptional e (prov_EncHeadersJSON provider)")
      case None
      with r k show ?thesis
        by (intro quiet [of "Some ErrDecryptHeaders"]) (simp add: processJob_def)
    next
      case h: (Some raw)
      show ?thesis
      proof (cases "TrimSpace raw \<noteq> [] \<and> \<not> json_headers_ok e raw")
        case True
        with r k h show ?thesis
          by (intro quiet [of "Some ErrParseHeaders"]) (simp add: processJob_def)
      next
        case hp: False
        show ?thesis
        proof (cases "if TrimSpace (prov_ConfigJSON provider) \<noteq> []
                      then json_config e (prov_ConfigJSON provider) else Some Map.empty")
          case None
          with r k h hp show ?thesis
            by (intro quiet [of "Some ErrParseConfig"]) (simp add: processJob_def)
        next
          case c: (Some providerCfg)
          show ?thesis
          proof (cases "Build \<lparr>bo_Kind = prov_Kind provider, bo_BaseURL = prov_BaseURL provider,
                                 bo_APIKey = apiKey, bo_Config = providerCfg,
                                 bo_MaxRetries = providerRetries w,
                                 bo_BackoffBase = backoffBase w\<rparr>")
            case bn: None
            have hp': "(TrimSpace raw \<noteq> [] \<and> \<not> json_headers_ok e raw) = False"
              using hp by simp
            with r k h c bn show ?thesis
              by (intro quiet [of "Some ErrBuildProvider"]) (simp add: processJob_def)
          next
            case b: (Some p)
            define params where "params =
               (if TrimSpace (pre_ParamsJSON preset) \<noteq> []
                then json_params e (TrimSpace (pre_ParamsJSON preset)) (1024, False)
                else (1024, False))"
            define req where "req = \<lparr>req_Model = pre_Model preset,
                 req_SystemPrompt = pre_SystemPrompt preset, req_UserPrompt = Prompt job,
                 req_MaxTokens = fst params, req_AllowTools = snd params\<rparr>"
            obtain res evs where pc: "Provider_Chat p (w_provider e) req = (res, evs)"
              by (cases "Provider_Chat p (w_provider e) req")
            have hp': "(TrimSpace raw \<noteq> [] \<and> \<not> json_headers_ok e raw) = False"
              using hp by simp
            have unfold: "processJob w e job st =
                (case Provider_Chat p (w_provider e) req of
                   (Inl err, evs) \<Rightarrow> (Some (ErrProviderChat err), st\<lparr>trace := trace st @ evs\<rparr>)
                 | (Inr resp, evs) \<Rightarrow>
                     (case SendMessage (send_up e) (ChatID job) (reply_text resp) (MessageID job)
                             (st\<lparr>trace := trace st @ evs\<rparr>) of
                        (ok, st1) \<Rightarrow> if ok then (None, st1) else (Some ErrSendResponse, st1)))"
              using r k h c b
              by (simp add: processJob_def Let_def req_def params_def hp')
            show ?thesis
            proof (cases res)
              case (Inl err)
              with pc unfold show ?thesis
                by (intro chatfail [of p req err evs]) simp_all
            next
              case (Inr resp)
              with pc unfold show ?thesis
                by (intro chatok [of p req resp evs]) (simp_all add: SendMessage_def)
            qed
          qed
        qed
      qed
    qed
  qed
qed

lemma Provider_Chat_no_queue_op:
  "Provider_Chat p e req = (r, evs) \<Longrightarrow> filter is_queue_op evs = []"
  using Provider_Chat_events [of p e req]
  by (auto simp: filter_empty_conv is_provider_event_def is_queue_op_def split: event.splits)

lemma processJob_frame:
  "queue (snd (processJob w e job st)) = queue st"
  "store (snd (processJob w e job st)) = store st"
  "FailedJobs (snd (processJob w e job st)) = FailedJobs st"
  "ProcessedJobs (snd (processJob w e job st)) = ProcessedJobs st"
proof -
  show "queue (snd (processJob w e job st)) = queue st"
    by (cases rule: processJob_cases [of w e job st]) simp_all
  show "store (snd (processJob w e job st)) = store st"
    by (cases rule: processJob_cases [of w e job st]) simp_all
  show "FailedJobs (snd (processJob w e job st)) = FailedJobs st"
    by (cases rule: processJob_cases [of w e job st]) simp_all
  show "ProcessedJobs (snd (processJob w e job st)) = ProcessedJobs st"
    by (cases rule: processJob_cases [of w e job st]) simp_all
qed

lemma processJob_trace:
  "take (length (trace st)) (trace (snd (processJob w e job st))) = trace st"
  "filter is_queue_op (drop (length (trace st)) (trace (snd (processJob w e job st)))) = []"
proof -
  show "take (length (trace st)) (trace (snd (processJob w e job st))) = trace st"
    by (cases rule: processJob_cases [of w e job st]) simp_all
  show "filter is_queue_op (drop (length (trace st)) (trace (snd (processJob w e job st)))) = []"
  proof (cases rule: processJob_cases [of w e job st])
    case (quiet r)
    then show ?thesis by simp
  next
    case notfound
    then show ?thesis by (simp add: is_queue_op_def)
  next
    case (chatfail p req err evs)
    then show ?thesis using Provider_Chat_no_queue_op [OF chatfail(1)] by simp
  next
    case (chatok p req resp evs)
    then show ?thesis using Provider_Chat_no_queue_op [OF chatok(1)] by (simp add: is_queue_op_def)
  qed
qed

subsection \<open>A provider that always answers 503\<close>

lemma chat_loop_exhaust:
  assumes retryable: "\<And>k. int k \<le> m \<Longrightarrow> \<exists>t. callOnce k = ((t, True, Some (err k)), [HttpDo k])"
    and alive: "\<And>k. \<not> dn k"
    and a: "int a \<le> m"
  shows "chat_loop callOnce dn m base a le = (Inl (err (nat m)), retry_trace base a (nat m))"
  using a
proof (induction "nat m - a" arbitrary: a le)
  case 0
  then have am: "int a = m" by simp
  from retryable [of a] am obtain t where c: "callOnce a = ((t, True, Some (err a)), [HttpDo a])"
    by auto
  have "nat m = a" using am by simp
  then show ?case
    using am c by (simp add: retry_trace_def chat_loop.simps [of _ _ _ _ a])
next
  case (Suc n)
  then have lt: "int a < m" by simp
  from retryable [of a] lt obtain t where c: "callOnce a = ((t, True, Some (err a)), [HttpDo a])"
    by auto
  have n: "n = nat m - Suc a" using Suc.hyps(2) by simp
  have le': "int (Suc a) \<le> m" using lt by simp
  have IH: "chat_loop callOnce dn m base (Suc a) (Some (err a)) =
      (Inl (err (nat m)), retry_trace base (Suc a) (nat m))"
    using Suc.hyps(1) [OF n le'] .
  have up: "[a..<nat m] = a # [Suc a..<nat m]"
    using lt by (simp add: upt_conv_Cons)
  show ?case
    using lt c alive IH by (simp add: retry_trace_def up chat_loop.simps [of _ _ _ _ a])
qed

lemma oc_callOnce_503:
  assumes "always_503 e"
  shows "oc_callOnce cfg e k = (([], True, Some (ErrTemporaryStatus 503)), [HttpDo k])"
proof -
  from assms obtain body where "http_result e k = Response 503 body" "request_ok e"
    by (auto simp: always_503_def)
  then show ?thesis by (simp add: oc_callOnce_def)
qed

lemma ch_callOnce_503:
  assumes "always_503 e" "TrimSpace (ch_URL cfg) \<noteq> []"
  shows "ch_callOnce cfg e k = (([], True, Some (ErrTemporaryStatus 503)), [HttpDo k])"
proof -
  from assms obtain body where "http_result e k = Response 503 body" "request_ok e"
    by (auto simp: always_503_def)
  then show ?thesis using assms(2) by (simp add: ch_callOnce_def)
qed

lemma oc_Chat_503:
  assumes "always_503 e" "TrimSpace (oc_BaseURL cfg) \<noteq> []" "0 \<le> oc_MaxRetries cfg"
  shows "oc_Chat cfg e req =
     (Inl (ErrTemporaryStatus 503), retry_trace (oc_BackoffBase cfg) 0 (nat (oc_MaxRetries cfg)))"
proof -
  have p: "oc_buildPayload cfg e req = None"
    using assms(1,2) by (simp add: oc_buildPayload_def always_503_def Let_def)
  have "chat_loop (oc_callOnce cfg e) (ctx_done e) (oc_MaxRetries cfg) (oc_BackoffBase cfg) 0 None =
      (Inl ((\<lambda>k. ErrTemporaryStatus 503) (nat (oc_MaxRetries cfg))),
       retry_trace (oc_BackoffBase cfg) 0 (nat (oc_MaxRetries cfg)))"
    using assms by (intro chat_loop_exhaust) (simp_all add: oc_callOnce_503 always_503_def)
  then show ?thesis by (simp add: oc_Chat_def p)
qed

lemma ch_Chat_503:
  assumes "always_503 e" "TrimSpace (ch_URL cfg) \<noteq> []" "0 \<le> ch_MaxRetries cfg"
  shows "ch_Chat cfg e req =
     (Inl (ErrTemporaryStatus 503), retry_trace (ch_BackoffBase cfg) 0 (nat (ch_MaxRetries cfg)))"
proof -
  have p: "ch_renderBody cfg e req = None"
    using assms(1) by (simp add: ch_renderBody_def always_503_def)
  have "chat_loop (ch_callOnce cfg e) (ctx_done e) (ch_MaxRetries cfg) (ch_BackoffBase cfg) 0 None =
      (Inl ((\<lambda>k. ErrTemporaryStatus 503) (nat (ch_MaxRetries cfg))),
       retry_trace (ch_BackoffBase cfg) 0 (nat (ch_MaxRetries cfg)))"
    using assms by (intro chat_loop_exhaust) (simp_all add: ch_callOnce_503 always_503_def)
  then show ?thesis by (simp add: ch_Chat_def p)
qed

lemma Build_Chat_503:
  assumes "always_503 e" "TrimSpace (bo_BaseURL opts) \<noteq> []" "0 \<le> bo_MaxRetries opts"
    "0 < bo_BackoffBase opts"
    "bo_Kind opts \<in> {''openai_compat'', ''openai-compatible'', ''openai'', ''custom_http'', ''custom-http''}"
  shows "\<exists>p. Build opts = Some p \<and> Provider_Chat p e req =
     (Inl (ErrTemporaryStatus 503), retry_trace (bo_BackoffBase opts) 0 (nat (bo_MaxRetries opts)))"
proof (cases "bo_Kind opts \<in> {''openai_compat'', ''openai-compatible'', ''openai''}")
  case True
  then show ?thesis
    using assms(1-4)
    by (simp add: Build_def Let_def oc_New_def oc_Chat_503)
next
  case False
  with assms(5) have k: "bo_Kind opts \<in> {''custom_http'', ''custom-http''}" by auto
  have nk: "bo_Kind opts \<notin> {''openai_compat'', ''openai-compatible'', ''openai''}" using False .
  show ?thesis
    using assms(1-4) k nk
    by (simp add: Build_def Let_def ch_New_def ch_Chat_503 del: insert_iff)
qed

lemma processJob_503:
  assumes ready: "provider_ready e job (store st)"
    and prov: "always_503 (w_provider e)"
    and w: "0 \<le> providerRetries w" "0 < backoffBase w"
  shows "processJob w e job st =
     (Some (ErrProviderChat (ErrTemporaryStatus 503)),
      st\<lparr>trace := trace st @ retry_trace (backoffBase w) 0 (nat (providerRetries w))\<rparr>)"
proof -
  from ready obtain preset provider where
    r: "resolvePreset e (ChatID job) (PresetName job) (store st) = Inr (preset, provider)"
    by (auto simp: provider_ready_def split: sum.splits)
  from ready r obtain apiKey where k: "decryptOptional e (prov_EncAPIKey provider) = Some apiKey"
    by (auto simp: provider_ready_def split: option.splits)
  from ready r k obtain raw where h: "decryptOptional e (prov_EncHeadersJSON provider) = Some raw"
    by (auto simp: provider_ready_def split: option.splits)
  from ready r k h have hp: "(TrimSpace raw \<noteq> [] \<and> \<not> json_headers_ok e raw) = False"
    by (auto simp: provider_ready_def)
  from ready r k h obtain providerCfg where
    c: "(if TrimSpace (prov_ConfigJSON provider) \<noteq> []
         then json_config e (prov_ConfigJSON provider) else Some Map.empty) = Some providerCfg"
    by (auto simp: provider_ready_def)
  from ready r k h have kind: "prov_Kind provider \<in> {''openai_compat'', ''openai-compatible'',
      ''openai'', ''custom_http'', ''custom-http''}" and url: "TrimSpace (prov_BaseURL provider) \<noteq> []"
    by (auto simp: provider_ready_def)
  define opts where "opts = \<lparr>bo_Kind = prov_Kind provider, bo_BaseURL = prov_BaseURL provider,
      bo_APIKey = apiKey, bo_Config = providerCfg, bo_MaxRetries = providerRetries w,
      bo_BackoffBase = backoffBase w\<rparr>"
  define params where "params =
     (if TrimSpace (pre_ParamsJSON preset) \<noteq> []
      then json_params e (TrimSpace (pre_ParamsJSON preset)) (1024, False)
      else (1024, False))"
  define req where "req = \<lparr>req_Model = pre_Model preset,
       req_SystemPrompt = pre_SystemPrompt preset, req_UserPrompt = Prompt job,
       req_MaxTokens = fst params, req_AllowTools = snd params\<rparr>"
  have "\<exists>p. Build opts = Some p \<and> Provider_Chat p (w_provider e) req =
     (Inl (ErrTemporaryStatus 503), retry_trace (bo_BackoffBase opts) 0 (nat (bo_MaxRetries opts)))"
    using prov url w kind by (intro Build_Chat_503) (simp_all add: opts_def)
  then obtain p where b: "Build opts = Some p"
    and pc: "Provider_Chat p (w_provider e) req =
       (Inl (ErrTemporaryStatus 503), retry_trace (backoffBase w) 0 (nat (providerRetries w)))"
    by (auto simp: opts_def)
  show ?thesis
    using r k h c b [unfolded opts_def] pc
    by (simp add: processJob_def Let_def req_def params_def hp)
qed

lemma provider_ready_Attempts [simp]:
  "provider_ready e (job\<lparr>Attempts := a\<rparr>) s = provider_ready e job s"
  by (simp add: provider_ready_def)

lemma iteration_retry:
  assumes ready: "provider_ready e job (store st)"
    and prov: "always_503 (w_provider e)"
    and w: "0 \<le> providerRetries w" "0 < backoffBase w"
    and redis: "xadd_up (w_queue e)" "xread_up (w_queue e)" "xack_up (w_queue e)" "xdel_up (w_queue e)"
    and job: "TrimSpace (JobID job) \<noteq> []" "EnqueuedAt job \<noteq> 0"
    and q: "queue st = \<lparr>entries = [(i, job)], last_id = i, last_delivered = d, pel = []\<rparr>" "d < i"
    and a: "Attempts job < maxJobRetries w"
  shows "iteration w e st =
     (True, st\<lparr>queue := \<lparr>entries = [(Suc i, job\<lparr>Attempts := Attempts job + 1\<rparr>)], last_id = Suc i,
                          last_delivered = i, pel = []\<rparr>,
               FailedJobs := Suc (FailedJobs st),
               trace := trace st @ retry_trace (backoffBase w) 0 (nat (providerRetries w)) @
                  [EvFailed, EvEnqueue (job\<lparr>Attempts := Attempts job + 1\<rparr>) True, EvAck i True]\<rparr>)"
proof -
  let ?q1 = "\<lparr>entries = [(i, job)], last_id = i, last_delivered = i, pel = [i]\<rparr>"
  have rd: "Read (w_queue e) 1 (queue st) = (Inr [\<lparr>ID = i, Job = job\<rparr>], ?q1)"
    using redis q by (simp add: Read_def)
  have pj: "processJob w e job (st\<lparr>queue := ?q1\<rparr>) =
     (Some (ErrProviderChat (ErrTemporaryStatus 503)),
      st\<lparr>queue := ?q1, trace := trace st @ retry_trace (backoffBase w) 0 (nat (providerRetries w))\<rparr>)"
    using processJob_503 [of e job "st\<lparr>queue := ?q1\<rparr>" w] ready prov w by simp
  show ?thesis
    using rd pj redis job a
    by (simp add: iteration_def handleMessage_def queue_Enqueue_def queue_Ack_def Enqueue_def
          Ack_def Let_def)
qed

lemma iteration_terminal:
  assumes ready: "provider_ready e job (store st)"
    and prov: "always_503 (w_provider e)"
    and w: "0 \<le> providerRetries w" "0 < backoffBase w"
    and redis: "xread_up (w_queue e)" "xack_up (w_queue e)" "xdel_up (w_queue e)"
    and q: "queue st = \<lparr>entries = [(i, job)], last_id = i, last_delivered = d, pel = []\<rparr>" "d < i"
    and a: "maxJobRetries w \<le> Attempts job"
  shows "iteration w e st =
     (True, st\<lparr>queue := \<lparr>entries = [], last_id = i, last_delivered = i, pel = []\<rparr>,
               FailedJobs := Suc (FailedJobs st),
               trace := trace st @ retry_trace (backoffBase w) 0 (nat (providerRetries w)) @
                  [EvFailed,
                   EvSend (ChatID job) ''LLM provider error. Please try again later.''
                     (if MessageID job > 0 then Some (MessageID job) else None) (send_error_up e),
                   EvAck i True]\<rparr>)"
proof -
  let ?q1 = "\<lparr>entries = [(i, job)], last_id = i, last_delivered = i, pel = [i]\<rparr>"
  have rd: "Read (w_queue e) 1 (queue st) = (Inr [\<lparr>ID = i, Job = job\<rparr>], ?q1)"
    using redis q by (simp add: Read_def)
  have pj: "processJob w e job (st\<lparr>queue := ?q1\<rparr>) =
     (Some (ErrProviderChat (ErrTemporaryStatus 503)),
      st\<lparr>queue := ?q1, trace := trace st @ retry_trace (backoffBase w) 0 (nat (providerRetries w))\<rparr>)"
    using processJob_503 [of e job "st\<lparr>queue := ?q1\<rparr>" w] ready prov w by simp
  show ?thesis
    using rd pj redis a
    by (simp add: iteration_def handleMessage_def queue_Ack_def sendError_def SendMessage_def
          Ack_def Let_def)
qed

lemma iteration_idle:
  assumes "xread_up (w_queue e)" "entries (queue st) = []"
  shows "iteration w e st = (True, st)"
  using assms by (simp add: iteration_def Read_def)

lemma consumeLoop_idle:
  assumes "xread_up (w_queue e)" "entries (queue st) = []"
  shows "consumeLoop w (replicate n e) st = st"
  using assms by (induction n) (simp_all add: iteration_idle)

subsection \<open>The worker's handling of a failed job\<close>

lemma demo_processJob_fails:
  "fst (processJob demo_worker env_503 demo_job demo_state) =
     Some (ErrProviderChat (ErrTemporaryStatus 503))"
  "trace (snd (processJob demo_worker env_503 demo_job demo_state)) =
     [HttpDo 0, Sleep 400000000, HttpDo 1, Sleep 800000000, HttpDo 2]"
  "queue (snd (processJob demo_worker env_503 demo_job demo_state)) = queue demo_state"
  by code_simp+

lemma demo_read:
  "Read redis_up 1 (queue demo_state) =
     (Inr [\<lparr>ID = 1, Job = demo_job\<rparr>],
      \<lparr>entries = [(1, demo_job)], last_id = 1, last_delivered = 1, pel = [1]\<rparr>)"
  by (simp add: Read_def redis_up_def demo_state_def)

lemma demo_read_processJob_fails:
  "fst (processJob demo_worker env_503 demo_job demo_read_state) =
     Some (ErrProviderChat (ErrTemporaryStatus 503))"
  "trace (snd (processJob demo_worker env_503 demo_job demo_read_state)) =
     [HttpDo 0, Sleep 400000000, HttpDo 1, Sleep 800000000, HttpDo 2]"
  by code_simp+

text \<open>
  Claim C3. When \<open>processJob\<close> fails for the job of a message, the worker counts the
  failure and then: with \<open>attempts < max_retries\<close> it enqueues the job with
  \<open>attempts + 1\<close>, so that the stream has a new entry carrying the updated job after the
  entries it had, and, when that succeeded, acks the old entry right after it: the id
  leaves the group's pending list and the old entry leaves the stream (first the enqueue,
  then the ack); when the enqueue failed it does not ack and the queue is as it was, the
  old entry still pending; with \<open>attempts \<ge> max_retries\<close> (so for
  \<open>attempts = max_retries\<close>) it sends the reply "LLM provider error. Please try again
  later." and acks the entry, and enqueues nothing.
\<close>

theorem C3_failed_job:
  fixes w e msg st
  defines "st' \<equiv> handleMessage w e msg st"
    and "job1 \<equiv> (Job msg)\<lparr>Attempts := Attempts (Job msg) + 1\<rparr>"
    and "acked \<equiv> xack_up (w_queue e) \<and> xdel_up (w_queue e)"
  defines "job2 \<equiv> (if TrimSpace (JobID job1) = [] then job1\<lparr>JobID := new_job_id (w_queue e)\<rparr> else job1)"
  defines "job3 \<equiv> (if EnqueuedAt job2 = 0 then job2\<lparr>EnqueuedAt := time_now (w_queue e)\<rparr> else job2)"
  assumes fail: "processJob w e (Job msg) st = (Some err, st1)"
  shows "FailedJobs st' = Suc (FailedJobs st)
     \<and> (Attempts (Job msg) < maxJobRetries w \<and> xadd_up (w_queue e) \<longrightarrow>
          trace st' = trace st1 @ [EvFailed, EvEnqueue job1 True, EvAck (ID msg) acked]
        \<and> entries (queue st') =
            (if acked
             then filter (\<lambda>(i, j). i \<noteq> ID msg) (entries (queue st) @ [(Suc (last_id (queue st)), job3)])
             else entries (queue st) @ [(Suc (last_id (queue st)), job3)])
        \<and> pel (queue st') =
            (if xack_up (w_queue e) then removeAll (ID msg) (pel (queue st)) else pel (queue st))
        \<and> last_id (queue st') = Suc (last_id (queue st))
        \<and> last_delivered (queue st') = last_delivered (queue st))
     \<and> (Attempts (Job msg) < maxJobRetries w \<and> \<not> xadd_up (w_queue e) \<longrightarrow>
          trace st' = trace st1 @ [EvFailed, EvEnqueue job1 False]
        \<and> queue st' = queue st)
     \<and> (maxJobRetries w \<le> Attempts (Job msg) \<longrightarrow>
          trace st' = trace st1 @
            [EvFailed,
             EvSend (ChatID (Job msg)) ''LLM provider error. Please try again later.''
               (if MessageID (Job msg) > 0 then Some (MessageID (Job msg)) else None)
               (send_error_up e),
             EvAck (ID msg) acked]
        \<and> entries (queue st') =
            (if acked then filter (\<lambda>(i, j). i \<noteq> ID msg) (entries (queue st)) else entries (queue st))
        \<and> pel (queue st') =
            (if xack_up (w_queue e) then removeAll (ID msg) (pel (queue st)) else pel (queue st))
        \<and> last_id (queue st') = last_id (queue st)
        \<and> last_delivered (queue st') = last_delivered (queue st))"
proof -
  have fr: "queue st1 = queue st" "FailedJobs st1 = FailedJobs st"
    using processJob_frame(1,3) [of w e "Job msg" st] fail by simp_all
  have c0: "FailedJobs st' = Suc (FailedJobs st)"
    using fail fr
    by (simp add: st'_def handleMessage_def queue_Enqueue_def queue_Ack_def sendError_def
          SendMessage_def Enqueue_def Ack_def Let_def split: prod.splits sum.splits)
  have c1: "Attempts (Job msg) < maxJobRetries w \<and> xadd_up (w_queue e) \<longrightarrow>
          trace st' = trace st1 @ [EvFailed, EvEnqueue job1 True, EvAck (ID msg) acked]
        \<and> entries (queue st') =
            (if acked
             then filter (\<lambda>(i, j). i \<noteq> ID msg) (entries (queue st) @ [(Suc (last_id (queue st)), job3)])
             else entries (queue st) @ [(Suc (last_id (queue st)), job3)])
        \<and> pel (queue st') =
            (if xack_up (w_queue e) then removeAll (ID msg) (pel (queue st)) else pel (queue st))
        \<and> last_id (queue st') = Suc (last_id (queue st))
        \<and> last_delivered (queue st') = last_delivered (queue st)"
    using fail fr
    by (auto simp: st'_def job1_def job2_def job3_def acked_def handleMessage_def queue_Enqueue_def
          queue_Ack_def Enqueue_def Ack_def Let_def)
  have c2: "Attempts (Job msg) < maxJobRetries w \<and> \<not> xadd_up (w_queue e) \<longrightarrow>
          trace st' = trace st1 @ [EvFailed, EvEnqueue job1 False]
        \<and> queue st' = queue st"
    using fail fr
    by (auto simp: st'_def job1_def handleMessage_def queue_Enqueue_def Enqueue_def Let_def)
  have c3: "maxJobRetries w \<le> Attempts (Job msg) \<longrightarrow>
          trace st' = trace st1 @
            [EvFailed,
             EvSend (ChatID (Job msg)) ''LLM provider error. Please try again later.''
               (if MessageID (Job msg) > 0 then Some (MessageID (Job msg)) else None)
               (send_error_up e),
             EvAck (ID msg) acked]
        \<and> entries (queue st') =
            (if acked then filter (\<lambda>(i, j). i \<noteq> ID msg) (entries (queue st)) else entries (queue st))
        \<and> pel (queue st') =
            (if xack_up (w_queue e) then removeAll (ID msg) (pel (queue st)) else pel (queue st))
        \<and> last_id (queue st') = last_id (queue st)
        \<and> last_delivered (queue st') = last_delivered (queue st)"
    using fail fr
    by (auto simp: st'_def acked_def handleMessage_def queue_Ack_def sendError_def SendMessage_def
          Ack_def Let_def)
  from c0 c1 c2 c3 show ?thesis by blast
qed

theorem C3_failed_job_witness:
  "fst (Read redis_up 1 (queue demo_state)) = Inr [\<lparr>ID = 1, Job = demo_job\<rparr>]
   \<and> pel (queue demo_read_state) = [1]
   \<and> trace (handleMessage demo_worker env_503 \<lparr>ID = 1, Job = demo_job\<rparr> demo_read_state) =
     [HttpDo 0, Sleep 400000000, HttpDo 1, Sleep 800000000, HttpDo 2, EvFailed,
      EvEnqueue (demo_job\<lparr>Attempts := 1\<rparr>) True, EvAck 1 True]
   \<and> entries (queue (handleMessage demo_worker env_503 \<lparr>ID = 1, Job = demo_job\<rparr> demo_read_state)) =
       [(2, demo_job\<lparr>Attempts := 1\<rparr>)]
   \<and> pel (queue (handleMessage demo_worker env_503 \<lparr>ID = 1, Job = demo_job\<rparr> demo_read_state)) = []
   \<and> FailedJobs (handleMessage demo_worker env_503 \<lparr>ID = 1, Job = demo_job\<rparr> demo_read_state) = 1"
proof -
  let ?st1 = "snd (processJob demo_worker env_503 demo_job demo_read_state)"
  let ?m = "\<lparr>ID = 1, Job = demo_job\<rparr>"
  have fail: "processJob demo_worker env_503 (Job ?m) demo_read_state =
      (Some (ErrProviderChat (ErrTemporaryStatus 503)), ?st1)"
    by (simp add: prod_eq_iff demo_read_processJob_fails)
  have pre: "Attempts (Job ?m) < maxJobRetries demo_worker \<and> xadd_up (w_queue env_503)"
    by (simp add: demo_job_def demo_worker_def Worker_New_def env_503_def redis_up_def)
  have q: "queue demo_read_state =
      \<lparr>entries = [(1, demo_job)], last_id = 1, last_delivered = 1, pel = [1]\<rparr>"
    by (simp add: demo_read_state_def Read_def redis_up_def demo_state_def)
  have a: "(Job ?m)\<lparr>Attempts := Attempts (Job ?m) + 1\<rparr> = demo_job\<lparr>Attempts := 1\<rparr>"
    by (simp add: demo_job_def)
  have j: "TrimSpace (JobID demo_job) \<noteq> []" "EnqueuedAt demo_job \<noteq> 0"
    by code_simp+
  have b: "xack_up (w_queue env_503)" "xdel_up (w_queue env_503)"
    by (simp_all add: env_503_def redis_up_def)
  have f: "FailedJobs demo_read_state = 0"
    by (simp add: demo_read_state_def demo_state_def)
  note t = C3_failed_job [OF fail, unfolded a]
  from t pre show ?thesis
    by (simp add: q j b f demo_read_processJob_fails Read_def redis_up_def demo_state_def)
qed


subsection \<open>Order of the queue operations\<close>

text \<open>
  Claim C2, as amended. In the handling of one message the worker's queue operations are
  exactly one of: an ack of the entry (the job succeeded or failed for good); an enqueue
  of the job with \<open>attempts + 1\<close> immediately followed by the ack of the old entry; or a
  failed enqueue alone. So the attempts counter of a job only increases, and the
  re-enqueue comes before the ack, never after it: between the two the stream holds the
  old entry and the new one, both for the same message, and after a successful ack the
  old one is gone.
\<close>

theorem C2_enqueue_then_ack:
  fixes w e msg st
  defines "st' \<equiv> handleMessage w e msg st"
    and "job1 \<equiv> (Job msg)\<lparr>Attempts := Attempts (Job msg) + 1\<rparr>"
    and "acked \<equiv> xack_up (w_queue e) \<and> xdel_up (w_queue e)"
  defines "ops \<equiv> filter is_queue_op (drop (length (trace st)) (trace st'))"
  shows "take (length (trace st)) (trace st') = trace st
    \<and> (ops = [EvAck (ID msg) acked] \<or> ops = [EvEnqueue job1 True, EvAck (ID msg) acked]
        \<or> ops = [EvEnqueue job1 False])
    \<and> Attempts (Job msg) < Attempts job1
    \<and> (ops = [EvEnqueue job1 True, EvAck (ID msg) acked] \<longrightarrow>
         (\<exists>j. Attempts j = Attempts (Job msg) + 1 \<and> MessageID j = MessageID (Job msg)
            \<and> entries (snd (Enqueue (w_queue e) job1 (queue st))) =
                entries (queue st) @ [(Suc (last_id (queue st)), j)]
            \<and> entries (queue st') =
                (if acked then filter (\<lambda>(i, j). i \<noteq> ID msg) (entries (queue st) @ [(Suc (last_id (queue st)), j)])
                 else entries (queue st) @ [(Suc (last_id (queue st)), j)])))"
proof -
  obtain r st1 where pj: "processJob w e (Job msg) st = (r, st1)"
    by (cases "processJob w e (Job msg) st")
  have fr: "queue st1 = queue st"
    using processJob_frame(1) [of w e "Job msg" st] pj by simp
  define evs where "evs = drop (length (trace st)) (trace st1)"
  have "take (length (trace st)) (trace st1) = trace st"
    using processJob_trace(1) [of st w e "Job msg"] pj by simp
  then have tr: "trace st1 = trace st @ evs"
    unfolding evs_def by (metis append_take_drop_id)
  have nq: "filter is_queue_op evs = []"
    using processJob_trace(2) [of st w e "Job msg"] pj by (simp add: evs_def)
  define j where "j = (let job2 = (if TrimSpace (JobID job1) = [] then job1\<lparr>JobID := new_job_id (w_queue e)\<rparr> else job1)
      in if EnqueuedAt job2 = 0 then job2\<lparr>EnqueuedAt := time_now (w_queue e)\<rparr> else job2)"
  have j: "Attempts j = Attempts (Job msg) + 1" "MessageID j = MessageID (Job msg)"
    by (simp_all add: j_def job1_def Let_def)
  have enq: "xadd_up (w_queue e) \<Longrightarrow> Enqueue (w_queue e) job1 (queue st) =
      (Inr (Suc (last_id (queue st))),
       (queue st)\<lparr>entries := entries (queue st) @ [(Suc (last_id (queue st)), j)],
                   last_id := Suc (last_id (queue st))\<rparr>)"
    by (simp add: Enqueue_def j_def Let_def)
  have enq': "\<not> xadd_up (w_queue e) \<Longrightarrow> Enqueue (w_queue e) job1 (queue st) = (Inl ErrEnqueue, queue st)"
    by (simp add: Enqueue_def Let_def)
  have ack: "\<And>q. Ack (w_queue e) (ID msg) q =
      (if \<not> xack_up (w_queue e) then (Some ErrXAck, q)
       else if \<not> xdel_up (w_queue e) then (Some ErrXDel, q\<lparr>pel := removeAll (ID msg) (pel q)\<rparr>)
       else (None, q\<lparr>pel := removeAll (ID msg) (pel q),
                     entries := filter (\<lambda>(i, j). i \<noteq> ID msg) (entries q)\<rparr>))"
    by (simp add: Ack_def Let_def)
  have ackev: "\<And>q. (fst (Ack (w_queue e) (ID msg) q) = None) = acked"
    by (auto simp: ack acked_def)
  have mono: "Attempts (Job msg) < Attempts job1" by (simp add: job1_def)
  show ?thesis
  proof (cases r)
    case None
    have "trace st' = trace st @ evs @ [EvProcessed, EvAck (ID msg) acked]"
      using pj None tr ackev
      by (simp add: st'_def handleMessage_def queue_Ack_def case_prod_beta)
    then have "take (length (trace st)) (trace st') = trace st" "ops = [EvAck (ID msg) acked]"
      using nq by (simp_all add: ops_def is_queue_op_def)
    then show ?thesis using mono by simp
  next
    case (Some err)
    show ?thesis
    proof (cases "Attempts (Job msg) < maxJobRetries w")
      case False
      have "trace st' = trace st @ evs @ [EvFailed,
          EvSend (ChatID (Job msg)) ''LLM provider error. Please try again later.''
            (if MessageID (Job msg) > 0 then Some (MessageID (Job msg)) else None) (send_error_up e),
          EvAck (ID msg) acked]"
        using pj Some False tr ackev
        by (simp add: st'_def handleMessage_def queue_Ack_def sendError_def SendMessage_def Let_def
              case_prod_beta)
      then have "take (length (trace st)) (trace st') = trace st" "ops = [EvAck (ID msg) acked]"
        using nq by (simp_all add: ops_def is_queue_op_def)
      then show ?thesis using mono by simp
    next
      case True
      show ?thesis
      proof (cases "xadd_up (w_queue e)")
        case False
        have "trace st' = trace st @ evs @ [EvFailed, EvEnqueue job1 False]"
          using pj Some True False tr enq' fr
          by (simp add: st'_def handleMessage_def queue_Enqueue_def Let_def job1_def)
        then have "take (length (trace st)) (trace st') = trace st" "ops = [EvEnqueue job1 False]"
          using nq by (simp_all add: ops_def is_queue_op_def)
        then show ?thesis using mono by simp
      next
        case up: True
        let ?q1 = "(queue st)\<lparr>entries := entries (queue st) @ [(Suc (last_id (queue st)), j)],
                   last_id := Suc (last_id (queue st))\<rparr>"
        have st': "st' = snd (queue_Ack e (ID msg)
            (st1\<lparr>FailedJobs := Suc (FailedJobs st1), queue := ?q1,
                 trace := trace st @ evs @ [EvFailed, EvEnqueue job1 True]\<rparr>))"
          using pj Some True up tr enq [OF up] fr
          by (simp add: st'_def handleMessage_def queue_Enqueue_def Let_def job1_def)
        have t: "trace st' = trace st @ evs @ [EvFailed, EvEnqueue job1 True, EvAck (ID msg) acked]"
          using ackev [of ?q1] by (simp add: st' queue_Ack_def case_prod_beta)
        have q: "entries (queue st') =
                (if acked then filter (\<lambda>(i, j). i \<noteq> ID msg) (entries (queue st) @ [(Suc (last_id (queue st)), j)])
                 else entries (queue st) @ [(Suc (last_id (queue st)), j)])"
          by (simp add: st' queue_Ack_def ack acked_def)
        have "take (length (trace st)) (trace st') = trace st"
          "ops = [EvEnqueue job1 True, EvAck (ID msg) acked]"
          using nq t by (simp_all add: ops_def is_queue_op_def)
        moreover have "entries (snd (Enqueue (w_queue e) job1 (queue st))) =
                entries (queue st) @ [(Suc (last_id (queue st)), j)]"
          using enq [OF up] by simp
        ultimately show ?thesis using mono j q by blast
      qed
    qed
  qed
qed

lemma demo_handle_ops:
  "filter is_queue_op (drop (length (trace demo_state))
      (trace (handleMessage demo_worker env_503 \<lparr>ID = 1, Job = demo_job\<rparr> demo_state))) =
     [EvEnqueue (demo_job\<lparr>Attempts := 1\<rparr>) True, EvAck 1 True]"
  by code_simp

theorem C2_enqueue_then_ack_witness:
  "\<exists>j. Attempts j = 1 \<and> MessageID j = 5
     \<and> entries (snd (Enqueue redis_up (demo_job\<lparr>Attempts := 1\<rparr>) (queue demo_state))) =
         [(1, demo_job), (2, j)]
     \<and> entries (queue (handleMessage demo_worker env_503 \<lparr>ID = 1, Job = demo_job\<rparr> demo_state)) =
         [(2, j)]"
proof -
  let ?m = "\<lparr>ID = 1, Job = demo_job\<rparr>"
  have a: "(Job ?m)\<lparr>Attempts := Attempts (Job ?m) + 1\<rparr> = demo_job\<lparr>Attempts := 1\<rparr>"
    by (simp add: demo_job_def)
  have b: "(xack_up (w_queue env_503) \<and> xdel_up (w_queue env_503)) = True"
    by (simp add: env_503_def redis_up_def)
  have q: "w_queue env_503 = redis_up"
    by (simp add: env_503_def)
  have ops: "filter is_queue_op (drop (length (trace demo_state))
      (trace (handleMessage demo_worker env_503 ?m demo_state))) =
     [EvEnqueue ((Job ?m)\<lparr>Attempts := Attempts (Job ?m) + 1\<rparr>) True,
      EvAck (ID ?m) (xack_up (w_queue env_503) \<and> xdel_up (w_queue env_503))]"
    unfolding a b using demo_handle_ops by simp
  from C2_enqueue_then_ack [of demo_state demo_worker env_503 ?m] ops
  obtain j where j: "Attempts j = Attempts (Job ?m) + 1" "MessageID j = MessageID (Job ?m)"
    "entries (snd (Enqueue (w_queue env_503) ((Job ?m)\<lparr>Attempts := Attempts (Job ?m) + 1\<rparr>)
        (queue demo_state))) = entries (queue demo_state) @ [(Suc (last_id (queue demo_state)), j)]"
    "entries (queue (handleMessage demo_worker env_503 ?m demo_state)) =
       (if xack_up (w_queue env_503) \<and> xdel_up (w_queue env_503)
        then filter (\<lambda>(i, j). i \<noteq> ID ?m)
               (entries (queue demo_state) @ [(Suc (last_id (queue demo_state)), j)])
        else entries (queue demo_state) @ [(Suc (last_id (queue demo_state)), j)])"
    by blast
  have c: "entries (queue demo_state) = [(1, demo_job)]" "last_id (queue demo_state) = 1"
    "Attempts demo_job = 0" "MessageID demo_job = 5"
    by (simp_all add: demo_state_def demo_job_def)
  have "Attempts j = 1" "MessageID j = 5"
    using j(1,2) c by simp_all
  moreover have "entries (snd (Enqueue redis_up (demo_job\<lparr>Attempts := 1\<rparr>) (queue demo_state))) =
         [(1, demo_job), (2, j)]"
    using j(3) unfolding a q by (simp add: c)
  moreover have "entries (queue (handleMessage demo_worker env_503 ?m demo_state)) = [(2, j)]"
    using j(4) unfolding b by (simp add: c)
  ultimately show ?thesis by blast
qed

text \<open>
  Claim C2 as stated fails: it has the ack before the re-enqueue and never two entries
  of one message in the stream. In the scenario the worker's queue operations for the
  failed job are the enqueue and then the ack; when the ack is issued the stream holds
  the entries 1 and 2, both for message 5; and when that ack fails they both stay.
\<close>

theorem C2_counterexample:
  "filter is_queue_op (trace (handleMessage demo_worker env_503 \<lparr>ID = 1, Job = demo_job\<rparr> demo_state)) =
     [EvEnqueue (demo_job\<lparr>Attempts := 1\<rparr>) True, EvAck 1 True]
   \<and> map (\<lambda>(i, j). (i, MessageID j, Attempts j))
        (entries (snd (Enqueue redis_up (demo_job\<lparr>Attempts := 1\<rparr>) (queue demo_state)))) =
       [(1, 5, 0), (2, 5, 1)]
   \<and> map (\<lambda>(i, j). (i, MessageID j, Attempts j))
        (entries (queue (handleMessage demo_worker (env_503\<lparr>w_queue := redis_up\<lparr>xack_up := False\<rparr>\<rparr>)
           \<lparr>ID = 1, Job = demo_job\<rparr> demo_state))) =
       [(1, 5, 0), (2, 5, 1)]"
  by code_simp

subsection \<open>Retry exhaustion\<close>

text \<open>
  Claim C4, as amended. With \<open>max_retries = 2\<close> for the adapter and \<open>max_retries = 3\<close>
  for jobs, a job with \<open>attempts = 0\<close> whose provider always answers 503 is executed
  four times. Each execution makes exactly three HTTP attempts, with the sleeps of
  attempts 0 and 1 between them; the first three executions re-enqueue the job (with
  attempts 1, 2 and 3) and ack the old entry; the fourth sends the terminal error reply
  and acks. The counter of failed jobs has grown by 4, and the stream is empty, so
  further iterations of the loop change nothing.
\<close>

theorem C4_retry_exhaust:
  assumes w: "providerRetries w = 2" "maxJobRetries w = 3" "0 < backoffBase w"
    and redis: "xadd_up (w_queue e)" "xread_up (w_queue e)" "xack_up (w_queue e)" "xdel_up (w_queue e)"
    and prov: "always_503 (w_provider e)" "provider_ready e job (store st)"
    and job: "Attempts job = 0" "TrimSpace (JobID job) \<noteq> []" "EnqueuedAt job \<noteq> 0"
    and q: "queue st = \<lparr>entries = [(i, job)], last_id = i, last_delivered = d, pel = []\<rparr>" "d < i"
  shows "consumeLoop w (replicate (4 + n) e) st =
     st\<lparr>queue := \<lparr>entries = [], last_id = i + 3, last_delivered = i + 3, pel = []\<rparr>,
        FailedJobs := FailedJobs st + 4,
        trace := trace st
          @ [HttpDo 0, Sleep (backoff (backoffBase w) 0), HttpDo 1, Sleep (backoff (backoffBase w) 1), HttpDo 2,
             EvFailed, EvEnqueue (job\<lparr>Attempts := 1\<rparr>) True, EvAck i True]
          @ [HttpDo 0, Sleep (backoff (backoffBase w) 0), HttpDo 1, Sleep (backoff (backoffBase w) 1), HttpDo 2,
             EvFailed, EvEnqueue (job\<lparr>Attempts := 2\<rparr>) True, EvAck (i + 1) True]
          @ [HttpDo 0, Sleep (backoff (backoffBase w) 0), HttpDo 1, Sleep (backoff (backoffBase w) 1), HttpDo 2,
             EvFailed, EvEnqueue (job\<lparr>Attempts := 3\<rparr>) True, EvAck (i + 2) True]
          @ [HttpDo 0, Sleep (backoff (backoffBase w) 0), HttpDo 1, Sleep (backoff (backoffBase w) 1), HttpDo 2,
             EvFailed,
             EvSend (ChatID job) ''LLM provider error. Please try again later.''
               (if MessageID job > 0 then Some (MessageID job) else None) (send_error_up e),
             EvAck (i + 3) True]\<rparr>"
proof -
  let ?x = "retry_trace (backoffBase w) 0 (nat (providerRetries w))"
  have x: "?x = [HttpDo 0, Sleep (backoff (backoffBase w) 0), HttpDo 1,
                 Sleep (backoff (backoffBase w) 1), HttpDo 2]"
    using w(1) by (simp add: retry_trace_def upt_conv_Cons numeral_2_eq_2)
  have w0: "0 \<le> providerRetries w" using w(1) by simp
  define j1 where "j1 = job\<lparr>Attempts := 1\<rparr>"
  define j2 where "j2 = job\<lparr>Attempts := 2\<rparr>"
  define j3 where "j3 = job\<lparr>Attempts := 3\<rparr>"
  define st1 where "st1 = st\<lparr>queue := \<lparr>entries = [(Suc i, j1)], last_id = Suc i,
                          last_delivered = i, pel = []\<rparr>,
               FailedJobs := Suc (FailedJobs st),
               trace := trace st @ ?x @ [EvFailed, EvEnqueue j1 True, EvAck i True]\<rparr>"
  define st2 where "st2 = st1\<lparr>queue := \<lparr>entries = [(Suc (Suc i), j2)], last_id = Suc (Suc i),
                          last_delivered = Suc i, pel = []\<rparr>,
               FailedJobs := Suc (FailedJobs st1),
               trace := trace st1 @ ?x @ [EvFailed, EvEnqueue j2 True, EvAck (Suc i) True]\<rparr>"
  define st3 where "st3 = st2\<lparr>queue := \<lparr>entries = [(Suc (Suc (Suc i)), j3)], last_id = Suc (Suc (Suc i)),
                          last_delivered = Suc (Suc i), pel = []\<rparr>,
               FailedJobs := Suc (FailedJobs st2),
               trace := trace st2 @ ?x @ [EvFailed, EvEnqueue j3 True, EvAck (Suc (Suc i)) True]\<rparr>"
  define st4 where "st4 = st3\<lparr>queue := \<lparr>entries = [], last_id = Suc (Suc (Suc i)),
                          last_delivered = Suc (Suc (Suc i)), pel = []\<rparr>,
               FailedJobs := Suc (FailedJobs st3),
               trace := trace st3 @ ?x @ [EvFailed,
                   EvSend (ChatID j3) ''LLM provider error. Please try again later.''
                     (if MessageID j3 > 0 then Some (MessageID j3) else None) (send_error_up e),
                   EvAck (Suc (Suc (Suc i))) True]\<rparr>"
  have i1: "iteration w e st = (True, st1)"
    using iteration_retry [of e job st w i d] w0 w redis prov job q
    by (simp add: st1_def j1_def)
  have i2: "iteration w e st1 = (True, st2)"
    using iteration_retry [of e j1 st1 w "Suc i" i] w0 w redis prov job
    by (simp add: st2_def st1_def j1_def j2_def)
  have i3: "iteration w e st2 = (True, st3)"
    using iteration_retry [of e j2 st2 w "Suc (Suc i)" "Suc i"] w0 w redis prov job
    by (simp add: st3_def st2_def st1_def j2_def j3_def)
  have i4: "iteration w e st3 = (True, st4)"
    using iteration_terminal [of e j3 st3 w "Suc (Suc (Suc i))" "Suc (Suc i)"] w0 w redis prov job
    by (simp add: st4_def st3_def st2_def st1_def j3_def)
  have idle: "consumeLoop w (replicate n e) st4 = st4"
    using redis by (intro consumeLoop_idle) (simp_all add: st4_def)
  have "replicate (4 + n) e = e # e # e # e # replicate n e"
    by (simp add: numeral_eq_Suc)
  then have "consumeLoop w (replicate (4 + n) e) st = st4"
    using i1 i2 i3 i4 idle by simp
  then show ?thesis
    by (simp add: st4_def st3_def st2_def st1_def j1_def j2_def j3_def x)
qed

lemma demo_ready:
  "provider_ready env_503 demo_job (store demo_state)"
  by code_simp

lemma demo_always_503: "always_503 (w_provider env_503)"
  by (simp add: always_503_def env_503_def provider_503_def)

theorem C4_retry_exhaust_witness:
  "FailedJobs (consumeLoop demo_worker (replicate 4 env_503) demo_state) = 4
   \<and> entries (queue (consumeLoop demo_worker (replicate 4 env_503) demo_state)) = []
   \<and> trace (consumeLoop demo_worker (replicate 4 env_503) demo_state) =
       [HttpDo 0, Sleep 400000000, HttpDo 1, Sleep 800000000, HttpDo 2,
        EvFailed, EvEnqueue (demo_job\<lparr>Attempts := 1\<rparr>) True, EvAck 1 True,
        HttpDo 0, Sleep 400000000, HttpDo 1, Sleep 800000000, HttpDo 2,
        EvFailed, EvEnqueue (demo_job\<lparr>Attempts := 2\<rparr>) True, EvAck 2 True,
        HttpDo 0, Sleep 400000000, HttpDo 1, Sleep 800000000, HttpDo 2,
        EvFailed, EvEnqueue (demo_job\<lparr>Attempts := 3\<rparr>) True, EvAck 3 True,
        HttpDo 0, Sleep 400000000, HttpDo 1, Sleep 800000000, HttpDo 2,
        EvFailed, EvSend 111 ''LLM provider error. Please try again later.'' (Some 5) True,
        EvAck 4 True]"
proof -
  have w: "providerRetries demo_worker = 2" "maxJobRetries demo_worker = 3"
    "0 < backoffBase demo_worker"
    by (simp_all add: demo_worker_def Worker_New_def)
  have redis: "xadd_up (w_queue env_503)" "xread_up (w_queue env_503)"
    "xack_up (w_queue env_503)" "xdel_up (w_queue env_503)"
    by (simp_all add: env_503_def redis_up_def)
  have job: "Attempts demo_job = 0" "TrimSpace (JobID demo_job) \<noteq> []" "EnqueuedAt demo_job \<noteq> 0"
    by (simp_all add: demo_job_def TrimSpace_def TrimRight_def TrimLeft_def white_space_def)
  have q: "queue demo_state = \<lparr>entries = [(1, demo_job)], last_id = 1, last_delivered = 0, pel = []\<rparr>"
    "(0::nat) < 1"
    by (simp_all add: demo_state_def)
  have b: "backoff (backoffBase demo_worker) 0 = 400000000"
    "backoff (backoffBase demo_worker) (Suc 0) = 800000000"
    by (simp_all add: backoff_def int64_def demo_worker_def Worker_New_def)
  have s: "send_error_up env_503" "ChatID demo_job = 111" "MessageID demo_job = 5"
    "FailedJobs demo_state = 0" "trace demo_state = []"
    by (simp_all add: env_503_def demo_job_def demo_state_def)
  from C4_retry_exhaust [OF w redis demo_always_503 demo_ready job q, of 0]
  show ?thesis
    by (simp add: b s)
qed

text \<open>
  Claim C4 as stated fails: it has two re-enqueues, the terminal reply in the third
  execution and a counter of 3. In the scenario, after three executions the counter is
  3, but no reply has been sent and the job is in the stream again, with
  \<open>attempts = 3\<close>; the fourth execution sends the reply, and then the counter is 4
  and the job has been enqueued three times.
\<close>

theorem C4_counterexample:
  "FailedJobs (consumeLoop demo_worker (replicate 3 env_503) demo_state) = 3
   \<and> filter is_send (trace (consumeLoop demo_worker (replicate 3 env_503) demo_state)) = []
   \<and> map (\<lambda>(i, j). (i, Attempts j))
        (entries (queue (consumeLoop demo_worker (replicate 3 env_503) demo_state))) = [(4, 3)]
   \<and> FailedJobs (consumeLoop demo_worker (replicate 4 env_503) demo_state) = 4
   \<and> length (filter is_enqueue (trace (consumeLoop demo_worker (replicate 4 env_503) demo_state))) = 3
   \<and> length (filter is_http (trace (consumeLoop demo_worker (replicate 4 env_503) demo_state))) = 12
   \<and> filter is_send (trace (consumeLoop demo_worker (replicate 4 env_503) demo_state)) =
       [EvSend 111 ''LLM provider error. Please try again later.'' (Some 5) True]"
  by code_simp

subsection \<open>The retry policy of the adapters\<close>

lemma int64_id: "- (2 ^ 63) \<le> x \<Longrightarrow> x < 2 ^ 63 \<Longrightarrow> int64 x = x"
  by (simp add: int64_def)

lemma backoff_exact:
  assumes "0 < base" "base * 2 ^ k < 2 ^ 63"
  shows "backoff base k = base * 2 ^ k"
proof -
  have p: "(0::int) < 2 ^ k" by simp
  have "1 * 2 ^ k \<le> base * 2 ^ k"
    using assms(1) by (intro mult_right_mono) auto
  then have lt: "(2::int) ^ k < 2 ^ 63"
    using assms(2) by linarith
  have lo: "- (2 ^ 63) \<le> (0::int)" by simp
  have "int64 (2 ^ k) = 2 ^ k"
    using lt lo p by (intro int64_id) linarith+
  moreover have "0 < base * 2 ^ k"
    using assms(1) p by (rule mult_pos_pos)
  then have "int64 (base * 2 ^ k) = base * 2 ^ k"
    using assms(2) lo by (intro int64_id) linarith+
  ultimately show ?thesis by (simp add: backoff_def)
qed

lemma chat_loop_policy:
  assumes ev: "\<And>k. snd (callOnce k) = [HttpDo k]"
    and flag: "\<And>k. fst (snd (fst (callOnce k))) = retryable (http k)"
    and err: "\<And>k. retryable (http k) \<Longrightarrow> snd (snd (fst (callOnce k))) \<noteq> None"
    and a: "int a \<le> m"
  shows "snd (chat_loop callOnce dn m base a le) = policy_trace base http dn (nat m - a) a"
  using a
proof (induction "nat m - a" arbitrary: a le)
  case 0
  then have am: "int a = m" by simp
  obtain t r oe evs where c: "callOnce a = ((t, r, oe), evs)"
    by (metis prod_cases3 surj_pair)
  have evs: "evs = [HttpDo a]" using ev [of a] c by simp
  show ?case
    using am c evs 0
    by (simp add: chat_loop.simps [of _ _ _ _ a] split: option.splits)
next
  case (Suc n)
  then have lt: "int a < m" by simp
  obtain t r oe evs where c: "callOnce a = ((t, r, oe), evs)"
    by (metis prod_cases3 surj_pair)
  have evs: "evs = [HttpDo a]" using ev [of a] c by simp
  have r: "r = retryable (http a)" using flag [of a] c by simp
  have oe: "r \<Longrightarrow> oe \<noteq> None" using err [of a] c r by simp
  have n: "n = nat m - Suc a" using Suc.hyps(2) by simp
  have le': "int (Suc a) \<le> m" using lt by simp
  have d: "nat m - a = Suc n" using Suc.hyps(2) by simp
  show ?case
  proof (cases oe)
    case None
    then have "\<not> r" using oe by auto
    then show ?thesis
      using lt c evs None r by (simp add: chat_loop.simps [of _ _ _ _ a] d)
  next
    case (Some e1)
    obtain r' evs' where rec: "chat_loop callOnce dn m base (Suc a) (Some e1) = (r', evs')"
      by (cases "chat_loop callOnce dn m base (Suc a) (Some e1)")
    have IH: "evs' = policy_trace base http dn n (Suc a)"
      using Suc.hyps(1) [OF n le', of "Some e1"] rec n by simp
    show ?thesis
      using lt c evs Some r rec IH
      by (auto simp: chat_loop.simps [of _ _ _ _ a] d)
  qed
qed

lemma policy_trace_bound:
  "length (filter is_http (policy_trace base http cn n k)) \<le> Suc n"
  by (induction n arbitrary: k) (auto simp: is_http_def)

lemma policy_trace_exhaust:
  assumes "\<And>j. retryable (http j)" "\<And>j. \<not> cn j"
  shows "length (filter is_http (policy_trace base http cn n k)) = Suc n"
  using assms by (induction n arbitrary: k) (auto simp: is_http_def)

lemma oc_callOnce_policy:
  assumes "request_ok e"
  shows "snd (oc_callOnce cfg e k) = [HttpDo k]"
    "fst (snd (fst (oc_callOnce cfg e k))) = retryable (http_result e k)"
    "retryable (http_result e k) \<Longrightarrow> snd (snd (fst (oc_callOnce cfg e k))) \<noteq> None"
  using assms
  by (auto simp: oc_callOnce_def retryable_def split: http_outcome.splits option.splits)

lemma ch_callOnce_policy:
  assumes "request_ok e" "TrimSpace (ch_URL cfg) \<noteq> []"
  shows "snd (ch_callOnce cfg e k) = [HttpDo k]"
    "fst (snd (fst (ch_callOnce cfg e k))) = retryable (http_result e k)"
    "retryable (http_result e k) \<Longrightarrow> snd (snd (fst (ch_callOnce cfg e k))) \<noteq> None"
  using assms
  by (auto simp: ch_callOnce_def retryable_def split: http_outcome.splits option.splits)

lemma oc_New_normal: "0 \<le> oc_MaxRetries (oc_New cfg)" "0 < oc_BackoffBase (oc_New cfg)"
  by (simp_all add: oc_New_def Let_def)

lemma ch_New_normal: "0 \<le> ch_MaxRetries (ch_New cfg)" "0 < ch_BackoffBase (ch_New cfg)"
  by (simp_all add: ch_New_def Let_def)

lemma chat_loop_policy_exhaust:
  assumes ev: "\<And>k. snd (callOnce k) = [HttpDo k]"
    and flag: "\<And>k. fst (snd (fst (callOnce k))) = retryable (http k)"
    and err: "\<And>k. retryable (http k) \<Longrightarrow> snd (snd (fst (callOnce k))) \<noteq> None"
    and all: "\<And>k. retryable (http k)" "\<And>k. \<not> dn k"
    and m: "0 \<le> m"
  shows "\<exists>x. fst (chat_loop callOnce dn m base 0 None) = Inl x"
proof -
  have "\<And>k. \<exists>t. callOnce k = ((t, True, Some (the (snd (snd (fst (callOnce k)))))), [HttpDo k])"
  proof -
    fix k
    obtain t r oe evs where c: "callOnce k = ((t, r, oe), evs)"
      by (metis prod_cases3 surj_pair)
    have "evs = [HttpDo k]" using ev [of k] c by simp
    moreover have "r" using flag [of k] all(1) [of k] c by simp
    moreover have "oe \<noteq> None" using err [of k] all(1) [of k] c by simp
    ultimately show "\<exists>t. callOnce k = ((t, True, Some (the (snd (snd (fst (callOnce k)))))), [HttpDo k])"
      using c by auto
  qed
  then have "chat_loop callOnce dn m base 0 None =
      (Inl ((\<lambda>k. the (snd (snd (fst (callOnce k))))) (nat m)), retry_trace base 0 (nat m))"
    using all(2) m by (intro chat_loop_exhaust) auto
  then show ?thesis by simp
qed

lemma demo_oc_New: "oc_New demo_oc = demo_oc\<lparr>oc_Endpoint := ''chat_completions''\<rparr>"
  by (simp add: oc_New_def demo_oc_def)

lemma demo_ch_New: "ch_New demo_ch = demo_ch\<lparr>ch_Method := ''POST''\<rparr>"
  by (simp add: ch_New_def demo_ch_def)

lemma demo_oc_payload: "oc_buildPayload (oc_New demo_oc) provider_503 demo_req = None"
  by code_simp

lemma demo_ch_body: "ch_renderBody (ch_New demo_ch) provider_503 demo_req = None"
  by code_simp

lemma demo_ch_url: "TrimSpace (ch_URL (ch_New demo_ch)) \<noteq> []"
  by code_simp

lemma demo_503_retryable: "retryable (http_result provider_503 k)"
  by (simp add: provider_503_def retryable_def)

lemma demo_503_alive: "\<not> ctx_done provider_503 k"
  by (simp add: provider_503_def)

lemma policy_trace_503:
  "policy_trace 400000000 (http_result provider_503) (ctx_done provider_503) (nat 2) 0 =
     [HttpDo 0, Sleep 400000000, HttpDo 1, Sleep 800000000, HttpDo 2]"
  by (simp add: eval_nat_numeral demo_503_retryable demo_503_alive backoff_def int64_def)

text \<open>
  Claim C7, as amended. For both adapters (configured through \<open>New\<close>, with a request that
  can be built): one exchange asks for a retry exactly when the transport failed, or a
  response with status at least 500 or 429 arrived and its body was read; so not on another
  status, not on a body that does not parse, and not when the body cannot be read, whatever
  the status. A chat call performs the exchanges of \<open>policy_trace\<close>: before retry number
  \<open>k\<close> (from 0) it sleeps the \<open>int64\<close> product of \<open>base\<close> and \<open>2 ^ k\<close>, which is
  \<open>base * 2 ^ k\<close> as long as that is below \<open>2 ^ 63\<close>; it stops at the first exchange that is
  not retryable or when the context is cancelled; and it makes at most \<open>max_retries + 1\<close>
  HTTP attempts, exactly that many and then an error when every exchange is retryable and
  the context is never cancelled.
\<close>

theorem C7_retry_policy:
  assumes req: "request_ok e"
    and oc: "cfg = oc_New cfg0" "oc_buildPayload cfg e r = None"
    and ch: "ccfg = ch_New ccfg0" "ch_renderBody ccfg e r = None" "TrimSpace (ch_URL ccfg) \<noteq> []"
  shows "(\<forall>k. fst (snd (fst (oc_callOnce cfg e k))) = retryable (http_result e k))
     \<and> (\<forall>k. fst (snd (fst (ch_callOnce ccfg e k))) = retryable (http_result e k))
     \<and> snd (oc_Chat cfg e r) =
         policy_trace (oc_BackoffBase cfg) (http_result e) (ctx_done e) (nat (oc_MaxRetries cfg)) 0
     \<and> snd (ch_Chat ccfg e r) =
         policy_trace (ch_BackoffBase ccfg) (http_result e) (ctx_done e) (nat (ch_MaxRetries ccfg)) 0
     \<and> (\<forall>k. oc_BackoffBase cfg * 2 ^ k < 2 ^ 63 \<longrightarrow>
           backoff (oc_BackoffBase cfg) k = oc_BackoffBase cfg * 2 ^ k)
     \<and> (\<forall>k. ch_BackoffBase ccfg * 2 ^ k < 2 ^ 63 \<longrightarrow>
           backoff (ch_BackoffBase ccfg) k = ch_BackoffBase ccfg * 2 ^ k)
     \<and> length (filter is_http (snd (oc_Chat cfg e r))) \<le> nat (oc_MaxRetries cfg) + 1
     \<and> length (filter is_http (snd (ch_Chat ccfg e r))) \<le> nat (ch_MaxRetries ccfg) + 1
     \<and> ((\<forall>k. retryable (http_result e k)) \<and> (\<forall>k. \<not> ctx_done e k) \<longrightarrow>
           length (filter is_http (snd (oc_Chat cfg e r))) = nat (oc_MaxRetries cfg) + 1
         \<and> length (filter is_http (snd (ch_Chat ccfg e r))) = nat (ch_MaxRetries ccfg) + 1
         \<and> (\<exists>x. fst (oc_Chat cfg e r) = Inl x) \<and> (\<exists>x. fst (ch_Chat ccfg e r) = Inl x))"
proof -
  note ocp = oc_callOnce_policy [OF req]
  note chp = ch_callOnce_policy [OF req ch(3)]
  have ocn: "0 \<le> oc_MaxRetries cfg" "0 < oc_BackoffBase cfg"
    using oc_New_normal [of cfg0] oc(1) by simp_all
  have chn: "0 \<le> ch_MaxRetries ccfg" "0 < ch_BackoffBase ccfg"
    using ch_New_normal [of ccfg0] ch(1) by simp_all
  have oct: "snd (oc_Chat cfg e r) =
      policy_trace (oc_BackoffBase cfg) (http_result e) (ctx_done e) (nat (oc_MaxRetries cfg)) 0"
    using chat_loop_policy [of "oc_callOnce cfg e" "http_result e" 0
        "oc_MaxRetries cfg" "ctx_done e" "oc_BackoffBase cfg" None] ocp ocn oc(2)
    by (simp add: oc_Chat_def)
  have cht: "snd (ch_Chat ccfg e r) =
      policy_trace (ch_BackoffBase ccfg) (http_result e) (ctx_done e) (nat (ch_MaxRetries ccfg)) 0"
    using chat_loop_policy [of "ch_callOnce ccfg e" "http_result e" 0
        "ch_MaxRetries ccfg" "ctx_done e" "ch_BackoffBase ccfg" None] chp chn ch(2)
    by (simp add: ch_Chat_def)
  have ob: "\<forall>k. oc_BackoffBase cfg * 2 ^ k < 2 ^ 63 \<longrightarrow>
      backoff (oc_BackoffBase cfg) k = oc_BackoffBase cfg * 2 ^ k"
    using backoff_exact [OF ocn(2)] by blast
  have cb: "\<forall>k. ch_BackoffBase ccfg * 2 ^ k < 2 ^ 63 \<longrightarrow>
      backoff (ch_BackoffBase ccfg) k = ch_BackoffBase ccfg * 2 ^ k"
    using backoff_exact [OF chn(2)] by blast
  have ex: "(\<forall>k. retryable (http_result e k)) \<and> (\<forall>k. \<not> ctx_done e k) \<longrightarrow>
           length (filter is_http (snd (oc_Chat cfg e r))) = nat (oc_MaxRetries cfg) + 1
         \<and> length (filter is_http (snd (ch_Chat ccfg e r))) = nat (ch_MaxRetries ccfg) + 1
         \<and> (\<exists>x. fst (oc_Chat cfg e r) = Inl x) \<and> (\<exists>x. fst (ch_Chat ccfg e r) = Inl x)"
  proof
    assume a: "(\<forall>k. retryable (http_result e k)) \<and> (\<forall>k. \<not> ctx_done e k)"
    have 1: "length (filter is_http (snd (oc_Chat cfg e r))) = nat (oc_MaxRetries cfg) + 1"
      unfolding oct using a by (simp add: policy_trace_exhaust)
    have 2: "length (filter is_http (snd (ch_Chat ccfg e r))) = nat (ch_MaxRetries ccfg) + 1"
      unfolding cht using a by (simp add: policy_trace_exhaust)
    have 3: "\<exists>x. fst (oc_Chat cfg e r) = Inl x"
      using chat_loop_policy_exhaust [of "oc_callOnce cfg e" "http_result e" "ctx_done e"
          "oc_MaxRetries cfg" "oc_BackoffBase cfg"] ocp a ocn(1) oc(2)
      by (simp add: oc_Chat_def)
    have 4: "\<exists>x. fst (ch_Chat ccfg e r) = Inl x"
      using chat_loop_policy_exhaust [of "ch_callOnce ccfg e" "http_result e" "ctx_done e"
          "ch_MaxRetries ccfg" "ch_BackoffBase ccfg"] chp a chn(1) ch(2)
      by (simp add: ch_Chat_def)
    from 1 2 3 4 show "length (filter is_http (snd (oc_Chat cfg e r))) = nat (oc_MaxRetries cfg) + 1
         \<and> length (filter is_http (snd (ch_Chat ccfg e r))) = nat (ch_MaxRetries ccfg) + 1
         \<and> (\<exists>x. fst (oc_Chat cfg e r) = Inl x) \<and> (\<exists>x. fst (ch_Chat ccfg e r) = Inl x)"
      by blast
  qed
  have b1: "length (filter is_http (snd (oc_Chat cfg e r))) \<le> nat (oc_MaxRetries cfg) + 1"
    unfolding oct using policy_trace_bound [of _ _ _ "nat (oc_MaxRetries cfg)" 0] by simp
  have b2: "length (filter is_http (snd (ch_Chat ccfg e r))) \<le> nat (ch_MaxRetries ccfg) + 1"
    unfolding cht using policy_trace_bound [of _ _ _ "nat (ch_MaxRetries ccfg)" 0] by simp
  show ?thesis
    using ocp(2) chp(2) oct cht ob cb b1 b2 ex by blast
qed

theorem C7_retry_policy_witness:
  "snd (oc_Chat (oc_New demo_oc) provider_503 demo_req) =
     [HttpDo 0, Sleep 400000000, HttpDo 1, Sleep 800000000, HttpDo 2]
   \<and> snd (ch_Chat (ch_New demo_ch) provider_503 demo_req) =
     [HttpDo 0, Sleep 400000000, HttpDo 1, Sleep 800000000, HttpDo 2]
   \<and> length (filter is_http (snd (oc_Chat (oc_New demo_oc) provider_503 demo_req))) = 3
   \<and> length (filter is_http (snd (ch_Chat (ch_New demo_ch) provider_503 demo_req))) = 3
   \<and> (\<exists>x. fst (oc_Chat (oc_New demo_oc) provider_503 demo_req) = Inl x)
   \<and> (\<exists>x. fst (ch_Chat (ch_New demo_ch) provider_503 demo_req) = Inl x)"
proof -
  have r: "request_ok provider_503" by (simp add: provider_503_def)
  have o: "oc_BackoffBase (oc_New demo_oc) = 400000000" "oc_MaxRetries (oc_New demo_oc) = 2"
    by (simp_all add: demo_oc_New) (simp_all add: demo_oc_def)
  have c: "ch_BackoffBase (ch_New demo_ch) = 400000000" "ch_MaxRetries (ch_New demo_ch) = 2"
    by (simp_all add: demo_ch_New) (simp_all add: demo_ch_def)
  have all: "(\<forall>k. retryable (http_result provider_503 k)) \<and> (\<forall>k. \<not> ctx_done provider_503 k)"
    using demo_503_retryable demo_503_alive by simp
  note t = C7_retry_policy [OF r refl demo_oc_payload refl demo_ch_body demo_ch_url]
  have n: "nat 2 + 1 = (3::nat)" by simp
  from t all show ?thesis
    unfolding o c policy_trace_503 n by blast
qed

text \<open>
  The claim as it was stated fails twice. A response with status 503 whose body cannot be
  read is not retried: with two retries configured, both adapters stop after one HTTP
  attempt. And the sleep is not always \<open>base * 2 ^ attempt\<close>: with a base of \<open>2 ^ 62\<close>
  nanoseconds the sleep before retry 1 is the wrapped product \<open>- 2 ^ 63\<close>.
\<close>

theorem C7_counterexample:
  "http_result provider_unreadable 0 = BodyReadError 503
   \<and> oc_MaxRetries (oc_New demo_oc) = 2 \<and> ch_MaxRetries (ch_New demo_ch) = 2
   \<and> snd (oc_Chat (oc_New demo_oc) provider_unreadable demo_req) = [HttpDo 0]
   \<and> snd (ch_Chat (ch_New demo_ch) provider_unreadable demo_req) = [HttpDo 0]
   \<and> snd (oc_Chat (oc_New demo_oc_long) provider_503 demo_req) =
       [HttpDo 0, Sleep 4611686018427387904, HttpDo 1, Sleep (- 9223372036854775808), HttpDo 2]
   \<and> oc_BackoffBase (oc_New demo_oc_long) * 2 ^ 1 = 9223372036854775808"
  by code_simp

subsection \<open>The ingress without an effective user\<close>













lemma ask_usage:
  assumes "EffectiveMessage ctx = Some msg" "EffectiveChat ctx = Some chat"
    "TrimSpace (commandRemainder (GetText msg)) = []"
  shows "snd (ask s e ctx st) =
           st\<lparr>s_trace := s_trace st @ [IvReply (tg_Id chat) ''Usage: /ask <text>'' (reply_up e)]\<rparr>"
  using assms by (simp add: ask_def reply_def)

lemma ai_usage:
  assumes "EffectiveMessage ctx = Some msg" "EffectiveChat ctx = Some chat"
    "splitFirstWord (TrimSpace (commandRemainder (GetText msg))) = (preset, prompt)"
    "preset = [] \<or> prompt = []"
  shows "snd (ai s e ctx st) =
           st\<lparr>s_trace := s_trace st @ [IvReply (tg_Id chat) ''Usage: /ai <preset> <text>'' (reply_up e)]\<rparr>"
  using assms by (auto simp: ai_def reply_def)










subsection \<open>The update processor and the rate limiter\<close>

lemma ProcessUpdate_ignores_user:
  "seen (ProcessUpdate p r (ctx\<lparr>EffectiveUser := u\<rparr>) st) = seen (ProcessUpdate p r ctx st)"
  "UpdatesTotal (ProcessUpdate p r (ctx\<lparr>EffectiveUser := u\<rparr>) st) = UpdatesTotal (ProcessUpdate p r ctx st)"
  "length (dispatched (ProcessUpdate p r (ctx\<lparr>EffectiveUser := u\<rparr>) st)) =
     length (dispatched (ProcessUpdate p r ctx st))"
  by (simp_all add: ProcessUpdate_def Base_ProcessUpdate_def Let_def
      split: option.splits prod.splits sum.splits)

lemma ProcessUpdate_first:
  assumes "Dedupe p = Some d" "rc_up r" "seen st (UpdateId ctx) = None"
  shows "dispatched (ProcessUpdate p r ctx st) = dispatched st @ [ctx]"
  using assms by (simp add: ProcessUpdate_def Base_ProcessUpdate_def MarkFirst_def Let_def)

text \<open>
  Claim C1 at an update of a stranger in private mode. The bot is configured private with
  admin 42, so \<open>main\<close> computes the allowed user 42; an update of user 7 arrives for the
  first time; \<open>ProcessUpdate\<close> hands it to the base processor, and the handlers run.
\<close>

theorem C1_private_mode_not_enforced:
  "BotAccessMode private_cfg = ''private'' \<and> allowedUserID private_cfg = 42
   \<and> EffectiveUser stranger_update = Some 7
   \<and> dispatched (ProcessUpdate (main_Processor private_cfg) \<lparr>rc_now = t_1000, rc_up = True\<rparr>
                    stranger_update pstate0) = [stranger_update]"
  by (simp add: private_cfg_def allowedUserID_def stranger_update_def main_Processor_def
      ProcessUpdate_def Base_ProcessUpdate_def MarkFirst_def pstate0_def Let_def)

lemma Allow_result:
  assumes "rc_up r"
    and "c0 = (case live (rc_now r) (st (c, u, now - now mod hour)) of
                 None \<Rightarrow> 0 | Some (c, ex) \<Rightarrow> c)"
    and "c0 \<noteq> 2 ^ 63 - 1"
  shows "fst (Allow r rl c u now st) =
           Inr (c0 + 1 \<le> limit rl, c0 + 1, now - now mod hour + hour)"
    and "map_option fst (snd (Allow r rl c u now st) (c, u, now - now mod hour)) =
           Some (c0 + 1)"
  using assms
  by (auto simp: Allow_def incrWithTTLScript_def Let_def split: option.splits prod.splits)

lemma Allow_reset_at:
  "now < now - now mod hour + hour" "now - now mod hour \<le> now"
  "(now - now mod hour + hour) mod hour = 0"
  by (simp_all add: hour_def minute_def second_def)

text \<open>
  Claim C6 at two calls in one hour. The limit is 1. The first call comes at 10:15:00.5:
  it is allowed, and the counter is given \<open>2699\<close> seconds to live, the whole seconds of the
  2699.5 left in the hour, so it expires at 10:59:59.5. The second call of the same chat
  and user comes at 10:59:59.7, in the same hour: the counter is gone, the call counts as
  the first again and is allowed.
\<close>

theorem C6_counter_expires_early:
  "t_first - t_first mod hour = t_1000 \<and> t_late - t_late mod hour = t_1000
   \<and> fst (Allow \<lparr>rc_now = t_first, rc_up = True\<rparr> one_per_hour 1 10 t_first Map.empty) =
       Inr (True, 1, t_1100)
   \<and> snd (Allow \<lparr>rc_now = t_first, rc_up = True\<rparr> one_per_hour 1 10 t_first Map.empty)
         (1, 10, t_1000) = Some (1, Some (t_first + 2699 * second))
   \<and> t_first + 2699 * second < t_late
   \<and> fst (Allow \<lparr>rc_now = t_late, rc_up = True\<rparr> one_per_hour 1 10 t_late
            (snd (Allow \<lparr>rc_now = t_first, rc_up = True\<rparr> one_per_hour 1 10 t_first Map.empty))) =
       Inr (True, 1, t_1100)"
  by (simp add: Allow_def incrWithTTLScript_def live_def Let_def t_first_def t_late_def t_1000_def
      t_1100_def one_per_hour_def hour_def minute_def second_def)

end
